theory Spec2Isabelle
  imports Complex_Main
begin

section \<open>Constants of generator\_control.py\<close>

definition INV_SWITCH_OFF :: int where "INV_SWITCH_OFF = 4"
definition INV_SWITCH_ON :: int where "INV_SWITCH_ON = 3"
definition INV_SWITCH_INVERT_ONLY :: int where "INV_SWITCH_INVERT_ONLY = 2"
definition INV_SWITCH_CHARGE_ONLY :: int where "INV_SWITCH_CHARGE_ONLY = 1"

definition REVERSE_POWER_CURRENT_THRESHOLD :: real where
  "REVERSE_POWER_CURRENT_THRESHOLD = - 5"

definition DEFAULT_MODE :: string where "DEFAULT_MODE = ''Off''"

definition TIMESTEP :: real where "TIMESTEP = 1"

definition REVERSE_POWER_COUNTER_THRESHOLD :: real where
  "REVERSE_POWER_COUNTER_THRESHOLD = 10 / TIMESTEP"

section \<open>Data model\<close>

text \<open>
  The keys of \<open>dbus_items_spec\<close>. The source builds the relay keys as
  \<open>f"relay_{relay_no}"\<close>; \<open>relay n\<close> stands for that string.
\<close>

datatype dbus_item_name =
    battery_soc
  | battery_charge_limit
  | battery_discharge_limit
  | ac_output_current
  | inverter_switch_mode
  | relay nat

text \<open>
  A slot of the dictionary \<open>dbus_items\<close>: a key that is present holds either an
  imported item or Python's \<open>None\<close> (the import failed). A key that was popped is
  absent from the map.
\<close>

datatype slot = Item | NoItem

text \<open>
  What the bus answers to \<open>GetValue\<close> on an imported item: a value (which
  \<open>unwrap_dbus_value\<close> may turn into \<open>None\<close>) or a \<open>DBusException\<close>.
\<close>

datatype 'a reply = Value "'a option" | DBusException

text \<open>The exceptions that leave a tick.\<close>

datatype error = TypeError | KeyError | SystemExit

text \<open>
  The dictionary \<open>input_values\<close> filled by \<open>update_inputs\<close>. \<open>read_input\<close> returns
  1 or 0; the fields hold whether it returned 1.
\<close>

record inputs =
  Off_Button :: bool
  On_Button :: bool
  Charge_Button :: bool
  Off_LED_In :: bool
  On_LED_In :: bool
  Charge_LED_In :: bool
  BMS_Wake_In :: bool

text \<open>
  The argument of \<open>set_relay\<close>, which tests \<open>isinstance(target_value, bool)\<close>.
\<close>

datatype target_value = TBool bool | TInt int

text \<open>
  The attributes of \<open>GeneratorController\<close>. Python floats are taken as exact reals.
  The last two fields are not attributes of the class: \<open>set_requests\<close> records every
  call of \<open>set_dbus_value\<close> and \<open>bus_writes\<close> every \<open>set_value\<close> that the bus
  accepted, in order, so that commands and writes can be counted.
\<close>

record GeneratorController =
  Mode :: string
  Toggle_State :: bool
  inverter_switch_mode_update_time :: real
  Off_Button_Pressed_Counter :: int
  BMS_Disable :: bool
  Battery_SOC :: real
  Battery_Charge_Limit :: real
  Battery_Discharge_Limit :: real
  AC_Output_Current :: "real option"
  Inverter_Switch_Mode :: int
  Reverse_Power_Counter :: int
  Reverse_Power_Alarm :: bool
  Inverter_Connected :: bool
  BMS_Connected :: bool
  relay_states :: "nat \<Rightarrow> int option"
  inverter_delay :: int
  dbus_items :: "dbus_item_name \<Rightarrow> slot option"
  input_values :: inputs
  set_requests :: "(dbus_item_name \<times> int option) list"
  bus_writes :: "(dbus_item_name \<times> int option) list"

text \<open>
  What the world outside the controller does during one tick: the GPIO levels, whether
  an item can be imported, the answers of the bus to each read, whether a write raises
  \<open>DBusException\<close>, and the two readings of \<open>time()\<close> in
  \<open>set_inverter_switch_mode\<close>.
\<close>

record env =
  gpio :: inputs
  creatable :: "dbus_item_name \<Rightarrow> bool"
  reading :: "dbus_item_name \<Rightarrow> real reply"
  mode_reading :: "int reply"
  relay_reading :: "nat \<Rightarrow> int reply"
  set_fails :: "dbus_item_name \<Rightarrow> bool"
  clock_check :: real
  clock_record :: real

text \<open>
  The attributes as \<open>__init__\<close> sets them, before its last statement, the call of
  \<open>check_and_create_connections\<close>; \<open>construct\<close> below is the whole constructor.
\<close>

definition init :: GeneratorController where
  "init = \<lparr> Mode = '''', Toggle_State = False, inverter_switch_mode_update_time = 0,
     Off_Button_Pressed_Counter = 0, BMS_Disable = False, Battery_SOC = 0,
     Battery_Charge_Limit = 0, Battery_Discharge_Limit = 0, AC_Output_Current = None,
     Inverter_Switch_Mode = 0, Reverse_Power_Counter = 0, Reverse_Power_Alarm = False,
     Inverter_Connected = False, BMS_Connected = False, relay_states = (\<lambda>n. None),
     inverter_delay = 0, dbus_items = (\<lambda>k. None),
     input_values = \<lparr> Off_Button = False, On_Button = False, Charge_Button = False,
       Off_LED_In = False, On_LED_In = False, Charge_LED_In = False, BMS_Wake_In = False \<rparr>,
     set_requests = [], bus_writes = [] \<rparr>"

section \<open>Properties of the controller\<close>

definition Fault_Detected :: "GeneratorController \<Rightarrow> bool" where
  "Fault_Detected s =
     (if Mode s \<notin> {''Off'', ''On'', ''ChargeOnly''} then True
      else if BMS_Connected s = False then True
      else if Mode s \<noteq> ''Off'' \<and> Inverter_Connected s = False then True
      else if Mode s \<noteq> ''Off'' \<and> Reverse_Power_Alarm s = True then True
      else False)"

definition Off_Button_Pressed :: "GeneratorController \<Rightarrow> bool" where
  "Off_Button_Pressed s = Off_Button (input_values s)"

definition On_Button_Pressed :: "GeneratorController \<Rightarrow> bool" where
  "On_Button_Pressed s = On_Button (input_values s)"

definition Charge_Button_Pressed :: "GeneratorController \<Rightarrow> bool" where
  "Charge_Button_Pressed s = Charge_Button (input_values s)"

definition Off_LED :: "GeneratorController \<Rightarrow> bool" where
  "Off_LED s = (Mode s = ''Off'')"

definition On_LED :: "GeneratorController \<Rightarrow> bool" where
  "On_LED s = (Mode s = ''On'')"

definition Charge_LED :: "GeneratorController \<Rightarrow> bool" where
  "Charge_LED s = (Mode s = ''ChargeOnly'')"

definition BMS_Wake :: "GeneratorController \<Rightarrow> bool" where
  "BMS_Wake s = (\<not> (Mode s = ''Off'' \<and> (Battery_SOC s < 50 \<or> BMS_Disable s)))"

definition DSE_Remote_Start :: "GeneratorController \<Rightarrow> bool" where
  "DSE_Remote_Start s = (Mode s = ''On'')"

definition DSE_Mode_Request :: "GeneratorController \<Rightarrow> bool" where
  "DSE_Mode_Request s = (Mode s = ''On'' \<or> Mode s = ''ChargeOnly'')"

definition RCD_Reset_Switch :: "GeneratorController \<Rightarrow> bool" where
  "RCD_Reset_Switch s =
     ((Off_Button_Pressed s \<and> On_Button_Pressed s \<and> \<not> Charge_Button_Pressed s) \<or>
      (Off_Button_Pressed s \<and> Charge_Button_Pressed s \<and> \<not> On_Button_Pressed s))"

definition Service_Restart_Requested :: "GeneratorController \<Rightarrow> bool" where
  "Service_Restart_Requested s =
     (Off_Button_Pressed s \<and> On_Button_Pressed s \<and> Charge_Button_Pressed s)"

text \<open>The dictionary \<open>modes\<close> of \<open>Inverter_Switch_Mode_Target\<close>, in its order.\<close>

definition modes :: "(string \<times> int) list" where
  "modes = [(''Off'', INV_SWITCH_OFF), (''On'', INV_SWITCH_ON),
            (''InvertOnly'', INV_SWITCH_INVERT_ONLY),
            (''ChargeOnly'', INV_SWITCH_CHARGE_ONLY)]"

definition Inverter_Switch_Mode_Target :: "GeneratorController \<Rightarrow> int option" where
  "Inverter_Switch_Mode_Target s =
     (if Reverse_Power_Alarm s then Some INV_SWITCH_OFF
      else map_of modes (Mode s))"

definition Reverse_Power_Detected :: "GeneratorController \<Rightarrow> bool" where
  "Reverse_Power_Detected s =
     (case AC_Output_Current s of
        Some c \<Rightarrow> c < REVERSE_POWER_CURRENT_THRESHOLD
      | None \<Rightarrow> False)"

text \<open>
  \<open>Battery_Contactors_Closed\<close> is a property with an effect: \<open>val\<close> is the value of
  Python's \<open>and\<close> on the two limits (the first when it is zero, the second otherwise),
  \<open>val == False\<close> holds when that number is zero, and then \<open>inverter_delay\<close> is set
  to 10. The result is the truth value of \<open>val\<close> with the state.
\<close>

definition Battery_Contactors_Closed :: "GeneratorController \<Rightarrow> bool \<times> GeneratorController" where
  "Battery_Contactors_Closed s =
     (let val = (if Battery_Charge_Limit s \<noteq> 0 then Battery_Discharge_Limit s
                 else Battery_Charge_Limit s)
      in (val \<noteq> 0, if val = 0 then s\<lparr>inverter_delay := 10\<rparr> else s))"

section \<open>The mode state machine\<close>

definition update_inputs :: "env \<Rightarrow> GeneratorController \<Rightarrow> GeneratorController" where
  "update_inputs e s = s\<lparr>input_values := gpio e\<rparr>"

definition update_mode :: "GeneratorController \<Rightarrow> GeneratorController" where
  "update_mode s =
     (let s1 = (if Mode s = '''' then s\<lparr>Mode := DEFAULT_MODE\<rparr> else s);
          s2 = (if Off_Button_Pressed s1
                then s1\<lparr>Off_Button_Pressed_Counter := Off_Button_Pressed_Counter s1 + 1\<rparr>
                else s1\<lparr>Off_Button_Pressed_Counter := 0\<rparr>);
          s3 = (if Off_Button_Pressed_Counter s2 \<ge> 10 then s2\<lparr>BMS_Disable := True\<rparr> else s2)
      in if Off_Button_Pressed s3 \<and> \<not> (On_Button_Pressed s3 \<or> Charge_Button_Pressed s3)
         then s3\<lparr>Mode := ''Off''\<rparr>
         else if On_Button_Pressed s3 \<and> \<not> (Off_Button_Pressed s3 \<or> Charge_Button_Pressed s3)
         then s3\<lparr>Mode := ''On'', BMS_Disable := False\<rparr>
         else if Charge_Button_Pressed s3 \<and> \<not> (On_Button_Pressed s3 \<or> Off_Button_Pressed s3)
         then s3\<lparr>Mode := ''ChargeOnly'', BMS_Disable := False\<rparr>
         else s3)"

section \<open>Reading and writing the bus\<close>

definition pop_item :: "dbus_item_name \<Rightarrow> GeneratorController \<Rightarrow> GeneratorController" where
  "pop_item name s = s\<lparr>dbus_items := (dbus_items s)(name := None)\<rparr>"

text \<open>\<open>dict.pop\<close> without a default raises \<open>KeyError\<close> on a key that is absent.\<close>

definition clear_dbus_item :: "dbus_item_name \<Rightarrow> GeneratorController \<Rightarrow> error + GeneratorController" where
  "clear_dbus_item name s =
     (if dbus_items s name = None then Inl KeyError else Inr (pop_item name s))"

text \<open>
  \<open>get_dbus_value\<close> and \<open>set_dbus_value\<close> call \<open>clear_dbus_item\<close> only after finding
  an item under the key, where the \<open>pop\<close> cannot raise (lemma \<open>clear_dbus_item_present\<close>
  below), so they use \<open>pop_item\<close>. \<open>r\<close> is the answer of the bus for this item.
\<close>

definition get_dbus_value ::
  "dbus_item_name \<Rightarrow> 'a reply \<Rightarrow> GeneratorController \<Rightarrow> 'a option \<times> GeneratorController" where
  "get_dbus_value name r s =
     (case dbus_items s name of
        Some Item \<Rightarrow>
          (case r of
             Value v \<Rightarrow> (v, s)
           | DBusException \<Rightarrow> (None, pop_item name s))
      | _ \<Rightarrow> (None, s))"

definition set_dbus_value ::
  "env \<Rightarrow> dbus_item_name \<Rightarrow> int option \<Rightarrow> GeneratorController \<Rightarrow> GeneratorController" where
  "set_dbus_value e name v s =
     (let s' = s\<lparr>set_requests := set_requests s @ [(name, v)]\<rparr>
      in case dbus_items s' name of
           Some Item \<Rightarrow>
             (if set_fails e name then pop_item name s'
              else s'\<lparr>bus_writes := bus_writes s' @ [(name, v)]\<rparr>)
         | _ \<Rightarrow> s')"

definition dbus_items_spec :: "dbus_item_name list" where
  "dbus_items_spec =
     [battery_soc, battery_charge_limit, battery_discharge_limit, ac_output_current,
      inverter_switch_mode, relay 2, relay 3, relay 4, relay 5, relay 6, relay 7,
      relay 8, relay 9]"

definition create_connection ::
  "env \<Rightarrow> dbus_item_name \<Rightarrow> (dbus_item_name \<Rightarrow> slot option) \<Rightarrow> (dbus_item_name \<Rightarrow> slot option)" where
  "create_connection e k d =
     (if d k = Some Item then d
      else d(k := Some (if creatable e k then Item else NoItem)))"

definition check_and_create_connections :: "env \<Rightarrow> GeneratorController \<Rightarrow> GeneratorController" where
  "check_and_create_connections e s =
     s\<lparr>dbus_items := fold (create_connection e) dbus_items_spec (dbus_items s)\<rparr>"

text \<open>\<open>GeneratorController()\<close> in the environment \<open>e\<close>.\<close>

definition construct :: "env \<Rightarrow> GeneratorController" where
  "construct e = check_and_create_connections e init"

text \<open>
  \<open>round(x, 1)\<close> on exact reals, ties to the even tenth. On \<open>None\<close> the builtin raises
  \<open>TypeError\<close>; the callers below write that branch out.
\<close>

definition round1 :: "real \<Rightarrow> real" where
  "round1 x =
     (let y = x * 10; f = \<lfloor>y\<rfloor>; d = y - of_int f
      in of_int (if d < 1 / 2 then f else if 1 / 2 < d then f + 1
                 else if even f then f else f + 1) / 10)"

definition update_battery_soc :: "env \<Rightarrow> GeneratorController \<Rightarrow> GeneratorController" where
  "update_battery_soc e s =
     (let (val, s1) = get_dbus_value battery_soc (reading e battery_soc) s
      in case val of
           Some v \<Rightarrow> s1\<lparr>BMS_Connected := True, Battery_SOC := v\<rparr>
         | None \<Rightarrow> s1\<lparr>BMS_Connected := False, Battery_SOC := 0\<rparr>)"

text \<open>
  The test of \<open>update_battery_limits\<close> reads the attributes \<open>Battery_Charge_Limit\<close> and
  \<open>Battery_Discharge_Limit\<close>, not the values just read. The attributes are numbers from
  \<open>__init__\<close> on, so the test passes and the else branch is never taken; \<open>round\<close> then
  raises \<open>TypeError\<close> on a read that gave \<open>None\<close>.
\<close>

definition update_battery_limits :: "env \<Rightarrow> GeneratorController \<Rightarrow> error + GeneratorController" where
  "update_battery_limits e s =
     (let (charge_lim, s1) = get_dbus_value battery_charge_limit (reading e battery_charge_limit) s;
          (discharge_lim, s2) =
             get_dbus_value battery_discharge_limit (reading e battery_discharge_limit) s1
      in case charge_lim of
           None \<Rightarrow> Inl TypeError
         | Some c \<Rightarrow>
             (case discharge_lim of
                None \<Rightarrow> Inl TypeError
              | Some d \<Rightarrow>
                  Inr (s2\<lparr>BMS_Connected := True, Battery_Charge_Limit := round1 c,
                          Battery_Discharge_Limit := round1 d\<rparr>)))"

definition update_ac_output_current :: "env \<Rightarrow> GeneratorController \<Rightarrow> error + GeneratorController" where
  "update_ac_output_current e s =
     (let (val, s1) = get_dbus_value ac_output_current (reading e ac_output_current) s
      in case val of
           Some v \<Rightarrow> Inr (s1\<lparr>Inverter_Connected := True, AC_Output_Current := Some (round1 v)\<rparr>)
         | None \<Rightarrow>
             clear_dbus_item ac_output_current
               (s1\<lparr>Inverter_Connected := False, AC_Output_Current := None\<rparr>))"

definition update_inverter_switch_mode :: "env \<Rightarrow> GeneratorController \<Rightarrow> GeneratorController" where
  "update_inverter_switch_mode e s =
     (let (val, s1) = get_dbus_value inverter_switch_mode (mode_reading e) s
      in case val of
           Some v \<Rightarrow> s1\<lparr>Inverter_Connected := True, Inverter_Switch_Mode := v\<rparr>
         | None \<Rightarrow> s1\<lparr>Inverter_Connected := False, Inverter_Switch_Mode := 0\<rparr>)"

fun update_relay_loop :: "env \<Rightarrow> nat list \<Rightarrow> GeneratorController \<Rightarrow> GeneratorController" where
  "update_relay_loop e [] s = s"
| "update_relay_loop e (relay_no # ns) s =
     (let (v, s1) = get_dbus_value (relay relay_no) (relay_reading e relay_no) s
      in update_relay_loop e ns (s1\<lparr>relay_states := (relay_states s1)(relay_no := v)\<rparr>))"

definition update_relay_states :: "env \<Rightarrow> GeneratorController \<Rightarrow> GeneratorController" where
  "update_relay_states e s =
     update_relay_loop e [2..<10] (s\<lparr>relay_states := (\<lambda>n. None)\<rparr>)"

section \<open>The output sequencer\<close>

fun coerce :: "target_value \<Rightarrow> int" where
  "coerce (TBool b) = (if b then 1 else 0)"
| "coerce (TInt i) = i"

definition set_relay :: "env \<Rightarrow> nat \<Rightarrow> target_value \<Rightarrow> GeneratorController \<Rightarrow> GeneratorController" where
  "set_relay e relay_no target_value s =
     (if Some (coerce target_value) \<noteq> relay_states s relay_no
      then set_dbus_value e (relay relay_no) (Some (coerce target_value)) s
      else s)"

definition set_outputs :: "env \<Rightarrow> GeneratorController \<Rightarrow> GeneratorController" where
  "set_outputs e s =
     (let s2 = (if Fault_Detected s
                then (set_relay e 2 (TBool (Toggle_State s)) s)\<lparr>Toggle_State := \<not> Toggle_State s\<rparr>
                else set_relay e 2 (TBool (Off_LED s)) s);
          s3 = set_relay e 3 (TBool (On_LED s2)) s2;
          s4 = set_relay e 4 (TBool (Charge_LED s3)) s3;
          s5 = set_relay e 5 (TBool (BMS_Wake s4)) s4;
          s6 = set_relay e 6 (TBool (DSE_Remote_Start s5)) s5;
          s7 = set_relay e 7 (TBool (DSE_Mode_Request s6)) s6;
          s8 = set_relay e 8 (TBool (RCD_Reset_Switch s7)) s7
      in set_relay e 9 (TBool (Reverse_Power_Alarm s8)) s8)"

definition set_inverter_switch_mode :: "env \<Rightarrow> GeneratorController \<Rightarrow> GeneratorController" where
  "set_inverter_switch_mode e s =
     (if Inverter_Switch_Mode_Target s \<noteq> Some (Inverter_Switch_Mode s) then
        (let (closed, s1) = Battery_Contactors_Closed s
         in if closed then
              (if inverter_delay s1 = 0 then
                 (if clock_check e - inverter_switch_mode_update_time s1 > 5 then
                    (let s2 = s1\<lparr>inverter_switch_mode_update_time := clock_record e\<rparr>
                     in set_dbus_value e inverter_switch_mode (Inverter_Switch_Mode_Target s2) s2)
                  else s1)
               else s1\<lparr>inverter_delay := max 0 (inverter_delay s1 - 1)\<rparr>)
            else s1)
      else s)"

section \<open>The reverse-power detector\<close>

text \<open>
  In the detected branch the source evaluates
  \<open>max(REVERSE_POWER_COUNTER_THRESHOLD, self.Reverse_Power_Counter)\<close> and drops the
  result, so the counter is only incremented there.
\<close>

definition check_reverse_power :: "GeneratorController \<Rightarrow> GeneratorController" where
  "check_reverse_power s =
     (let s1 = (if Reverse_Power_Detected s
                then s\<lparr>Reverse_Power_Counter := Reverse_Power_Counter s + 1\<rparr>
                else s\<lparr>Reverse_Power_Counter := max 0 (Reverse_Power_Counter s - 1)\<rparr>)
      in if of_int (Reverse_Power_Counter s1) \<ge> REVERSE_POWER_COUNTER_THRESHOLD
         then s1\<lparr>Reverse_Power_Alarm := True\<rparr>
         else if Mode s1 = ''Off'' \<and> Reverse_Power_Counter s1 = 0
         then s1\<lparr>Reverse_Power_Alarm := False\<rparr>
         else s1)"

section \<open>One pass of the loop of run\<close>

fun bind_e :: "error + 'a \<Rightarrow> ('a \<Rightarrow> error + 'b) \<Rightarrow> error + 'b" where
  "bind_e (Inl x) f = Inl x"
| "bind_e (Inr a) f = f a"

text \<open>
  The body of \<open>while True\<close> in \<open>run\<close>, without the memory snapshots, the printing and
  the sleep. \<open>exit()\<close> after the restart chord is \<open>SystemExit\<close>.
\<close>

definition tick :: "env \<Rightarrow> GeneratorController \<Rightarrow> error + GeneratorController" where
  "tick e s =
     (let s1 = check_and_create_connections e s;
          s2 = update_inputs e s1;
          s3 = update_mode s2;
          s4 = update_battery_soc e s3
      in bind_e (update_battery_limits e s4) (\<lambda>s5.
         bind_e (if Mode s5 = ''On'' \<or> Mode s5 = ''ChargeOnly''
                 then bind_e (update_ac_output_current e s5) (\<lambda>s'. Inr (check_reverse_power s'))
                 else Inr s5) (\<lambda>s6.
           (let s7 = update_relay_states e s6;
                s8 = set_outputs e s7;
                s9 = update_inverter_switch_mode e s8;
                s10 = set_inverter_switch_mode e s9
            in if Service_Restart_Requested s10 then Inl SystemExit else Inr s10))))"

text \<open>The loop of \<open>run\<close> over the first ticks of an execution, one \<open>env\<close> per tick.\<close>

fun run :: "env list \<Rightarrow> GeneratorController \<Rightarrow> error + GeneratorController" where
  "run [] s = Inr s"
| "run (e # es) s = bind_e (tick e s) (run es)"

section \<open>Environments and states of the examples\<close>

text \<open>
  \<open>is_value\<close> tells whether a read gives a number; in a \<open>healthy\<close> environment the
  three items that \<open>tick\<close> cannot do without are imported and answer with a number, and
  the restart chord is not pressed.
\<close>

fun is_value :: "'a reply \<Rightarrow> bool" where
  "is_value (Value (Some v)) = True"
| "is_value (Value None) = False"
| "is_value DBusException = False"

definition healthy :: "env \<Rightarrow> bool" where
  "healthy e =
     (creatable e battery_charge_limit \<and> creatable e battery_discharge_limit \<and>
      creatable e ac_output_current \<and>
      is_value (reading e battery_charge_limit) \<and> is_value (reading e battery_discharge_limit) \<and>
      is_value (reading e ac_output_current) \<and>
      \<not> (Off_Button (gpio e) \<and> On_Button (gpio e) \<and> Charge_Button (gpio e)))"

text \<open>
  \<open>env0\<close>: no button pressed, every item imported, battery at 80 percent with limits of
  100 A, 2 A of AC output, the inverter reporting switch mode 4, every relay reporting 0,
  the clock at 1000. The others differ from it in one respect each.
\<close>

definition env0 :: env where
  "env0 = \<lparr> gpio = \<lparr> Off_Button = False, On_Button = False, Charge_Button = False,
       Off_LED_In = False, On_LED_In = False, Charge_LED_In = False, BMS_Wake_In = False \<rparr>,
     creatable = (\<lambda>k. True),
     reading = (\<lambda>k. if k = battery_soc then Value (Some 80)
                     else if k = ac_output_current then Value (Some 2)
                     else Value (Some 100)),
     mode_reading = Value (Some 4),
     relay_reading = (\<lambda>n. Value (Some 0)),
     set_fails = (\<lambda>k. False),
     clock_check = 1000, clock_record = 1000 \<rparr>"

definition env_off :: env where
  "env_off = env0\<lparr>gpio := (gpio env0)\<lparr>Off_Button := True\<rparr>\<rparr>"

definition env_on :: env where
  "env_on = env0\<lparr>gpio := (gpio env0)\<lparr>On_Button := True\<rparr>\<rparr>"

definition env_reverse :: env where
  "env_reverse = env_on\<lparr>reading := (reading env_on)(ac_output_current := Value (Some (- 8)))\<rparr>"

definition env_at5 :: env where
  "env_at5 = env0\<lparr>clock_check := 995, clock_record := 995\<rparr>"

definition env_charge_down :: env where
  "env_charge_down = env0\<lparr>creatable := (\<lambda>k. k \<noteq> battery_charge_limit)\<rparr>"

definition env_charge_raises :: env where
  "env_charge_raises = env0\<lparr>reading := (reading env0)(battery_charge_limit := DBusException)\<rparr>"

definition env_ac_raises :: env where
  "env_ac_raises = env_on\<lparr>reading := (reading env_on)(ac_output_current := DBusException)\<rparr>"

definition env_mode_down :: env where
  "env_mode_down = env0\<lparr>mode_reading := DBusException\<rparr>"

text \<open>
  States in the middle of a run, given by the attributes that differ from a fresh
  controller. \<open>s_pending\<close>: mode On, contactors closed, the inverter still reporting Off, the last
  command sent at time 990. \<open>s_settling\<close> is the same with 3 ticks of settle delay left.
  \<open>s_open_pending\<close> and \<open>s_open_idle\<close> have the contactors open (limits 0) and 3 ticks
  of delay left, the first with a command pending and the second with target and
  confirmed mode both Off.
\<close>

definition s_pending :: GeneratorController where
  "s_pending = (construct env0)\<lparr>Mode := ''On'', inverter_switch_mode_update_time := 990,
     Battery_SOC := 80, Battery_Charge_Limit := 100, Battery_Discharge_Limit := 100,
     AC_Output_Current := Some 2, Inverter_Switch_Mode := 4, Inverter_Connected := True,
     BMS_Connected := True\<rparr>"

definition s_settling :: GeneratorController where
  "s_settling = s_pending\<lparr>inverter_delay := 3\<rparr>"

definition s_open_pending :: GeneratorController where
  "s_open_pending = (construct env0)\<lparr>Mode := ''On'', Battery_SOC := 80,
     AC_Output_Current := Some 0, Inverter_Switch_Mode := 4, Inverter_Connected := True,
     BMS_Connected := True, inverter_delay := 3\<rparr>"

definition s_open_idle :: GeneratorController where
  "s_open_idle = (construct env0)\<lparr>Mode := ''Off'', Battery_SOC := 80,
     Inverter_Switch_Mode := 4, Inverter_Connected := True, BMS_Connected := True,
     inverter_delay := 3\<rparr>"

definition s_relays :: GeneratorController where
  "s_relays = s_pending\<lparr>relay_states :=
     (\<lambda>n. if 2 \<le> n \<and> n < 10 then Some (if n = 3 then 0 else 1) else None)\<rparr>"

definition s_alarm :: GeneratorController where
  "s_alarm = s_pending\<lparr>Reverse_Power_Counter := 10, Reverse_Power_Alarm := True\<rparr>"

definition s_disabled :: GeneratorController where
  "s_disabled = s_open_idle\<lparr>BMS_Disable := True\<rparr>"

text \<open>
  Ten ticks with On held and 8 A flowing backwards, ten ticks with On held and 2 A, one
  tick with Off pressed, one idle tick.
\<close>

definition scenario_alarm :: "env list" where
  "scenario_alarm = replicate 10 env_reverse @ replicate 10 env_on @ [env_off, env0]"

section \<open>What each step leaves unchanged\<close>

lemma bind_e_Inr_iff: "bind_e x f = Inr y \<longleftrightarrow> (\<exists>a. x = Inr a \<and> f a = Inr y)"
  by (cases x) simp_all

lemma clear_dbus_item_present:
  "dbus_items s name = Some Item \<Longrightarrow> clear_dbus_item name s = Inr (pop_item name s)"
  by (simp add: clear_dbus_item_def)

lemma get_dbus_value_frame:
  "Mode (snd (get_dbus_value name r s)) = Mode s"
  "Off_Button_Pressed_Counter (snd (get_dbus_value name r s)) = Off_Button_Pressed_Counter s"
  "BMS_Disable (snd (get_dbus_value name r s)) = BMS_Disable s"
  "input_values (snd (get_dbus_value name r s)) = input_values s"
  "Reverse_Power_Counter (snd (get_dbus_value name r s)) = Reverse_Power_Counter s"
  "Reverse_Power_Alarm (snd (get_dbus_value name r s)) = Reverse_Power_Alarm s"
  "AC_Output_Current (snd (get_dbus_value name r s)) = AC_Output_Current s"
  "relay_states (snd (get_dbus_value name r s)) = relay_states s"
  by (simp_all add: get_dbus_value_def pop_item_def split: option.split slot.split reply.split)

lemma set_dbus_value_requests:
  "set_requests (set_dbus_value e name v s) = set_requests s @ [(name, v)]"
  by (simp add: set_dbus_value_def pop_item_def Let_def split: option.split slot.split)

lemma set_dbus_value_frame:
  "Mode (set_dbus_value e name v s) = Mode s"
  "Off_Button_Pressed_Counter (set_dbus_value e name v s) = Off_Button_Pressed_Counter s"
  "BMS_Disable (set_dbus_value e name v s) = BMS_Disable s"
  "input_values (set_dbus_value e name v s) = input_values s"
  "Reverse_Power_Counter (set_dbus_value e name v s) = Reverse_Power_Counter s"
  "Reverse_Power_Alarm (set_dbus_value e name v s) = Reverse_Power_Alarm s"
  "inverter_delay (set_dbus_value e name v s) = inverter_delay s"
  "inverter_switch_mode_update_time (set_dbus_value e name v s) = inverter_switch_mode_update_time s"
  by (simp_all add: set_dbus_value_def pop_item_def Let_def split: option.split slot.split)

lemma check_and_create_connections_frame:
  "Mode (check_and_create_connections e s) = Mode s"
  "Off_Button_Pressed_Counter (check_and_create_connections e s) = Off_Button_Pressed_Counter s"
  "BMS_Disable (check_and_create_connections e s) = BMS_Disable s"
  "Reverse_Power_Counter (check_and_create_connections e s) = Reverse_Power_Counter s"
  "Reverse_Power_Alarm (check_and_create_connections e s) = Reverse_Power_Alarm s"
  by (simp_all add: check_and_create_connections_def)

lemma fold_create_connection:
  "fold (create_connection e) ks d k =
     (if k \<in> set ks \<and> d k \<noteq> Some Item then Some (if creatable e k then Item else NoItem)
      else d k)"
  by (induction ks arbitrary: d) (auto simp add: create_connection_def)

lemma check_and_create_connections_items:
  "dbus_items (check_and_create_connections e s) k =
     (if k \<in> set dbus_items_spec \<and> dbus_items s k \<noteq> Some Item
      then Some (if creatable e k then Item else NoItem)
      else dbus_items s k)"
  by (simp add: check_and_create_connections_def fold_create_connection)

lemma construct_fields:
  "Mode (construct e) = ''''"
  "inverter_switch_mode_update_time (construct e) = 0"
  "Off_Button_Pressed_Counter (construct e) = 0"
  "BMS_Disable (construct e) = False"
  "Battery_Charge_Limit (construct e) = 0"
  "Battery_Discharge_Limit (construct e) = 0"
  "Inverter_Switch_Mode (construct e) = 0"
  "Reverse_Power_Counter (construct e) = 0"
  "Reverse_Power_Alarm (construct e) = False"
  "relay_states (construct e) = (\<lambda>n. None)"
  "inverter_delay (construct e) = 0"
  "set_requests (construct e) = []"
  "bus_writes (construct e) = []"
  by (simp_all add: construct_def check_and_create_connections_def init_def)

lemma construct_items:
  "dbus_items (construct e) k =
     (if k \<in> set dbus_items_spec then Some (if creatable e k then Item else NoItem) else None)"
  by (simp add: construct_def check_and_create_connections_items init_def)

lemma set_dbus_value_writes:
  "dbus_items s name = Some Item \<Longrightarrow> \<not> set_fails e name \<Longrightarrow>
   bus_writes (set_dbus_value e name v s) = bus_writes s @ [(name, v)]"
  by (simp add: set_dbus_value_def Let_def)

lemma update_inputs_frame:
  "Mode (update_inputs e s) = Mode s"
  "Off_Button_Pressed_Counter (update_inputs e s) = Off_Button_Pressed_Counter s"
  "BMS_Disable (update_inputs e s) = BMS_Disable s"
  "input_values (update_inputs e s) = gpio e"
  "Reverse_Power_Counter (update_inputs e s) = Reverse_Power_Counter s"
  "Reverse_Power_Alarm (update_inputs e s) = Reverse_Power_Alarm s"
  "dbus_items (update_inputs e s) = dbus_items s"
  by (simp_all add: update_inputs_def)

lemma update_mode_frame:
  "input_values (update_mode s) = input_values s"
  "Reverse_Power_Counter (update_mode s) = Reverse_Power_Counter s"
  "Reverse_Power_Alarm (update_mode s) = Reverse_Power_Alarm s"
  "dbus_items (update_mode s) = dbus_items s"
  by (simp_all add: update_mode_def Let_def Off_Button_Pressed_def On_Button_Pressed_def
      Charge_Button_Pressed_def)

lemma update_mode_cong:
  assumes "Mode s = Mode t" "input_values s = input_values t"
    "Off_Button_Pressed_Counter s = Off_Button_Pressed_Counter t" "BMS_Disable s = BMS_Disable t"
  shows "Mode (update_mode s) = Mode (update_mode t)"
    "Off_Button_Pressed_Counter (update_mode s) = Off_Button_Pressed_Counter (update_mode t)"
    "BMS_Disable (update_mode s) = BMS_Disable (update_mode t)"
  using assms
  by (simp_all add: update_mode_def Let_def Off_Button_Pressed_def On_Button_Pressed_def
      Charge_Button_Pressed_def)

lemma update_battery_soc_frame:
  "Mode (update_battery_soc e s) = Mode s"
  "Off_Button_Pressed_Counter (update_battery_soc e s) = Off_Button_Pressed_Counter s"
  "BMS_Disable (update_battery_soc e s) = BMS_Disable s"
  "input_values (update_battery_soc e s) = input_values s"
  "Reverse_Power_Counter (update_battery_soc e s) = Reverse_Power_Counter s"
  "Reverse_Power_Alarm (update_battery_soc e s) = Reverse_Power_Alarm s"
  by (simp_all add: update_battery_soc_def get_dbus_value_def pop_item_def
      split: option.split slot.split reply.split)

lemma update_battery_soc_items:
  "k \<noteq> battery_soc \<Longrightarrow> dbus_items (update_battery_soc e s) k = dbus_items s k"
  by (simp add: update_battery_soc_def get_dbus_value_def pop_item_def
      split: option.split slot.split reply.split)

lemma update_battery_limits_frame:
  assumes "update_battery_limits e s = Inr s'"
  shows "Mode s' = Mode s"
    "Off_Button_Pressed_Counter s' = Off_Button_Pressed_Counter s"
    "BMS_Disable s' = BMS_Disable s"
    "input_values s' = input_values s"
    "Reverse_Power_Counter s' = Reverse_Power_Counter s"
    "Reverse_Power_Alarm s' = Reverse_Power_Alarm s"
    "dbus_items s' = dbus_items s"
  using assms
  by (auto simp add: update_battery_limits_def get_dbus_value_def pop_item_def
      split: option.splits slot.splits reply.splits)

lemma update_battery_limits_Inr_iff:
  "(\<exists>s'. update_battery_limits e s = Inr s') \<longleftrightarrow>
     dbus_items s battery_charge_limit = Some Item \<and>
     dbus_items s battery_discharge_limit = Some Item \<and>
     (\<exists>c. reading e battery_charge_limit = Value (Some c)) \<and>
     (\<exists>d. reading e battery_discharge_limit = Value (Some d))"
  by (auto simp add: update_battery_limits_def get_dbus_value_def pop_item_def
      split: option.splits slot.splits reply.splits)

lemma update_battery_limits_TypeError:
  "(\<forall>s'. update_battery_limits e s \<noteq> Inr s') \<Longrightarrow> update_battery_limits e s = Inl TypeError"
  by (auto simp add: update_battery_limits_def get_dbus_value_def pop_item_def
      split: option.splits slot.splits reply.splits)

lemma update_ac_output_current_frame:
  assumes "update_ac_output_current e s = Inr s'"
  shows "Mode s' = Mode s"
    "Off_Button_Pressed_Counter s' = Off_Button_Pressed_Counter s"
    "BMS_Disable s' = BMS_Disable s"
    "input_values s' = input_values s"
    "Reverse_Power_Counter s' = Reverse_Power_Counter s"
    "Reverse_Power_Alarm s' = Reverse_Power_Alarm s"
  using assms
  by (auto simp add: update_ac_output_current_def get_dbus_value_def pop_item_def clear_dbus_item_def
      split: option.splits slot.splits reply.splits if_splits)

lemma update_ac_output_current_value:
  assumes "update_ac_output_current e s = Inr s'"
  shows "AC_Output_Current s' =
    (case reading e ac_output_current of
       Value (Some v) \<Rightarrow> if dbus_items s ac_output_current = Some Item then Some (round1 v) else None
     | _ \<Rightarrow> None)"
  using assms
  by (auto simp add: update_ac_output_current_def get_dbus_value_def pop_item_def clear_dbus_item_def
      split: option.splits slot.splits reply.splits if_splits)

lemma update_ac_output_current_Inr_iff:
  "(\<exists>s'. update_ac_output_current e s = Inr s') \<longleftrightarrow>
     \<not> (dbus_items s ac_output_current = None \<or>
        dbus_items s ac_output_current = Some Item \<and> reading e ac_output_current = DBusException)"
  by (auto simp add: update_ac_output_current_def get_dbus_value_def pop_item_def clear_dbus_item_def
      split: option.splits slot.splits reply.splits if_splits)

lemma update_ac_output_current_KeyError:
  "dbus_items s ac_output_current = Some Item \<Longrightarrow> reading e ac_output_current = DBusException \<Longrightarrow>
   update_ac_output_current e s = Inl KeyError"
  by (simp add: update_ac_output_current_def get_dbus_value_def pop_item_def clear_dbus_item_def)

lemma check_reverse_power_frame:
  "Mode (check_reverse_power s) = Mode s"
  "Off_Button_Pressed_Counter (check_reverse_power s) = Off_Button_Pressed_Counter s"
  "BMS_Disable (check_reverse_power s) = BMS_Disable s"
  "input_values (check_reverse_power s) = input_values s"
  by (simp_all add: check_reverse_power_def Let_def)

lemma check_reverse_power_cong:
  assumes "Mode s = Mode t" "AC_Output_Current s = AC_Output_Current t"
    "Reverse_Power_Counter s = Reverse_Power_Counter t" "Reverse_Power_Alarm s = Reverse_Power_Alarm t"
  shows "Reverse_Power_Counter (check_reverse_power s) = Reverse_Power_Counter (check_reverse_power t)"
    "Reverse_Power_Alarm (check_reverse_power s) = Reverse_Power_Alarm (check_reverse_power t)"
  using assms by (simp_all add: check_reverse_power_def Let_def Reverse_Power_Detected_def)

lemma update_relay_loop_frame:
  "Mode (update_relay_loop e ns s) = Mode s"
  "Off_Button_Pressed_Counter (update_relay_loop e ns s) = Off_Button_Pressed_Counter s"
  "BMS_Disable (update_relay_loop e ns s) = BMS_Disable s"
  "input_values (update_relay_loop e ns s) = input_values s"
  "Reverse_Power_Counter (update_relay_loop e ns s) = Reverse_Power_Counter s"
  "Reverse_Power_Alarm (update_relay_loop e ns s) = Reverse_Power_Alarm s"
  by (induction ns arbitrary: s; simp add: split_beta get_dbus_value_frame)+

lemma update_relay_states_frame:
  "Mode (update_relay_states e s) = Mode s"
  "Off_Button_Pressed_Counter (update_relay_states e s) = Off_Button_Pressed_Counter s"
  "BMS_Disable (update_relay_states e s) = BMS_Disable s"
  "input_values (update_relay_states e s) = input_values s"
  "Reverse_Power_Counter (update_relay_states e s) = Reverse_Power_Counter s"
  "Reverse_Power_Alarm (update_relay_states e s) = Reverse_Power_Alarm s"
  unfolding update_relay_states_def update_relay_loop_frame by simp_all

lemma set_relay_frame:
  "Mode (set_relay e n v s) = Mode s"
  "Off_Button_Pressed_Counter (set_relay e n v s) = Off_Button_Pressed_Counter s"
  "BMS_Disable (set_relay e n v s) = BMS_Disable s"
  "input_values (set_relay e n v s) = input_values s"
  "Reverse_Power_Counter (set_relay e n v s) = Reverse_Power_Counter s"
  "Reverse_Power_Alarm (set_relay e n v s) = Reverse_Power_Alarm s"
  "inverter_delay (set_relay e n v s) = inverter_delay s"
  "inverter_switch_mode_update_time (set_relay e n v s) = inverter_switch_mode_update_time s"
  by (simp_all add: set_relay_def set_dbus_value_frame)

lemma set_outputs_frame:
  "Mode (set_outputs e s) = Mode s"
  "Off_Button_Pressed_Counter (set_outputs e s) = Off_Button_Pressed_Counter s"
  "BMS_Disable (set_outputs e s) = BMS_Disable s"
  "input_values (set_outputs e s) = input_values s"
  "Reverse_Power_Counter (set_outputs e s) = Reverse_Power_Counter s"
  "Reverse_Power_Alarm (set_outputs e s) = Reverse_Power_Alarm s"
  "inverter_delay (set_outputs e s) = inverter_delay s"
  "inverter_switch_mode_update_time (set_outputs e s) = inverter_switch_mode_update_time s"
  by (simp_all add: set_outputs_def Let_def set_relay_frame)

lemma update_inverter_switch_mode_frame:
  "Mode (update_inverter_switch_mode e s) = Mode s"
  "Off_Button_Pressed_Counter (update_inverter_switch_mode e s) = Off_Button_Pressed_Counter s"
  "BMS_Disable (update_inverter_switch_mode e s) = BMS_Disable s"
  "input_values (update_inverter_switch_mode e s) = input_values s"
  "Reverse_Power_Counter (update_inverter_switch_mode e s) = Reverse_Power_Counter s"
  "Reverse_Power_Alarm (update_inverter_switch_mode e s) = Reverse_Power_Alarm s"
  "inverter_delay (update_inverter_switch_mode e s) = inverter_delay s"
  "inverter_switch_mode_update_time (update_inverter_switch_mode e s) = inverter_switch_mode_update_time s"
  by (simp_all add: update_inverter_switch_mode_def get_dbus_value_def pop_item_def
      split: option.split slot.split reply.split)

lemma update_inverter_switch_mode_failed:
  assumes "dbus_items s inverter_switch_mode \<noteq> Some Item \<or> mode_reading e = DBusException \<or>
     mode_reading e = Value None"
  shows "Inverter_Switch_Mode (update_inverter_switch_mode e s) = 0"
    "\<not> Inverter_Connected (update_inverter_switch_mode e s)"
  using assms
  by (auto simp add: update_inverter_switch_mode_def get_dbus_value_def pop_item_def
      split: option.split slot.split reply.split)

lemma set_inverter_switch_mode_frame:
  "Mode (set_inverter_switch_mode e s) = Mode s"
  "Off_Button_Pressed_Counter (set_inverter_switch_mode e s) = Off_Button_Pressed_Counter s"
  "BMS_Disable (set_inverter_switch_mode e s) = BMS_Disable s"
  "input_values (set_inverter_switch_mode e s) = input_values s"
  "Reverse_Power_Counter (set_inverter_switch_mode e s) = Reverse_Power_Counter s"
  "Reverse_Power_Alarm (set_inverter_switch_mode e s) = Reverse_Power_Alarm s"
  by (simp_all add: set_inverter_switch_mode_def Battery_Contactors_Closed_def Let_def
      set_dbus_value_frame)

lemmas tail_frame =
  set_inverter_switch_mode_frame update_inverter_switch_mode_frame set_outputs_frame
  update_relay_states_frame

lemmas head_frame =
  update_battery_soc_frame update_mode_frame update_inputs_frame check_and_create_connections_frame

lemmas target_defs = Inverter_Switch_Mode_Target_def modes_def INV_SWITCH_OFF_def INV_SWITCH_ON_def
  INV_SWITCH_INVERT_ONLY_def INV_SWITCH_CHARGE_ONLY_def

lemmas button_defs = Off_Button_Pressed_def On_Button_Pressed_def Charge_Button_Pressed_def

lemma target_not_0: "Inverter_Switch_Mode_Target s \<noteq> Some 0"
  by (simp add: target_defs)

section \<open>One tick\<close>

text \<open>A tick that returns went through every step; the steps are named here.\<close>

lemma tick_InrD:
  assumes "tick e s = Inr s'"
  shows "\<exists>s5 s6.
    update_battery_limits e (update_battery_soc e (update_mode (update_inputs e
        (check_and_create_connections e s)))) = Inr s5 \<and>
    (if Mode s5 = ''On'' \<or> Mode s5 = ''ChargeOnly''
     then \<exists>s'. update_ac_output_current e s5 = Inr s' \<and> s6 = check_reverse_power s'
     else s6 = s5) \<and>
    s' = set_inverter_switch_mode e (update_inverter_switch_mode e (set_outputs e
        (update_relay_states e s6))) \<and>
    \<not> Service_Restart_Requested s'"
proof -
  let ?s4 = "update_battery_soc e (update_mode (update_inputs e (check_and_create_connections e s)))"
  let ?tail = "\<lambda>s6. set_inverter_switch_mode e (update_inverter_switch_mode e (set_outputs e
        (update_relay_states e s6)))"
  let ?mid = "\<lambda>s5. if Mode s5 = ''On'' \<or> Mode s5 = ''ChargeOnly''
       then bind_e (update_ac_output_current e s5) (\<lambda>s'. Inr (check_reverse_power s'))
       else Inr s5"
  from assms obtain s5 s6 where
    s5: "update_battery_limits e ?s4 = Inr s5" and
    s6: "?mid s5 = Inr s6" and
    r: "(if Service_Restart_Requested (?tail s6) then Inl SystemExit else Inr (?tail s6)) = Inr s'"
    unfolding tick_def Let_def bind_e_Inr_iff by blast
  from r have s': "s' = ?tail s6" and nr: "\<not> Service_Restart_Requested s'"
    by (auto split: if_splits)
  have "if Mode s5 = ''On'' \<or> Mode s5 = ''ChargeOnly''
     then \<exists>s'. update_ac_output_current e s5 = Inr s' \<and> s6 = check_reverse_power s'
     else s6 = s5"
  proof (cases "Mode s5 = ''On'' \<or> Mode s5 = ''ChargeOnly''")
    case True
    with s6 show ?thesis by (auto simp add: bind_e_Inr_iff)
  next
    case False
    with s6 show ?thesis by auto
  qed
  with s5 s' nr show ?thesis by blast
qed

lemma tick_Mode:
  assumes "tick e s = Inr s'"
  shows "Mode s' = Mode (update_mode (update_inputs e s))"
    "Off_Button_Pressed_Counter s' = Off_Button_Pressed_Counter (update_mode (update_inputs e s))"
    "BMS_Disable s' = BMS_Disable (update_mode (update_inputs e s))"
    "input_values s' = gpio e"
proof -
  let ?s3 = "update_mode (update_inputs e (check_and_create_connections e s))"
  from tick_InrD [OF assms] obtain s5 s6 where
    s5: "update_battery_limits e (update_battery_soc e ?s3) = Inr s5" and
    s6: "if Mode s5 = ''On'' \<or> Mode s5 = ''ChargeOnly''
         then \<exists>s'. update_ac_output_current e s5 = Inr s' \<and> s6 = check_reverse_power s'
         else s6 = s5" and
    s': "s' = set_inverter_switch_mode e (update_inverter_switch_mode e (set_outputs e
        (update_relay_states e s6)))"
    by blast
  have a: "Mode s6 = Mode s5 \<and> Off_Button_Pressed_Counter s6 = Off_Button_Pressed_Counter s5 \<and>
      BMS_Disable s6 = BMS_Disable s5 \<and> input_values s6 = input_values s5"
    using s6 by (auto simp add: check_reverse_power_frame update_ac_output_current_frame split: if_splits)
  have b: "Mode s5 = Mode ?s3 \<and> Off_Button_Pressed_Counter s5 = Off_Button_Pressed_Counter ?s3 \<and>
      BMS_Disable s5 = BMS_Disable ?s3 \<and> input_values s5 = input_values ?s3"
    using update_battery_limits_frame [OF s5] by (simp add: update_battery_soc_frame)
  have c: "Mode ?s3 = Mode (update_mode (update_inputs e s))"
    "Off_Button_Pressed_Counter ?s3 = Off_Button_Pressed_Counter (update_mode (update_inputs e s))"
    "BMS_Disable ?s3 = BMS_Disable (update_mode (update_inputs e s))"
    by (rule update_mode_cong; simp add: update_inputs_def check_and_create_connections_def)+
  show "Mode s' = Mode (update_mode (update_inputs e s))"
    "Off_Button_Pressed_Counter s' = Off_Button_Pressed_Counter (update_mode (update_inputs e s))"
    "BMS_Disable s' = BMS_Disable (update_mode (update_inputs e s))"
    "input_values s' = gpio e"
    using a b c by (simp_all add: s' tail_frame update_mode_frame update_inputs_frame)
qed

lemma tick_reverse_power_off:
  assumes "tick e s = Inr s'" "\<not> (Mode s' = ''On'' \<or> Mode s' = ''ChargeOnly'')"
  shows "Reverse_Power_Counter s' = Reverse_Power_Counter s"
    "Reverse_Power_Alarm s' = Reverse_Power_Alarm s"
proof -
  let ?s4 = "update_battery_soc e (update_mode (update_inputs e (check_and_create_connections e s)))"
  from tick_InrD [OF assms(1)] obtain s5 s6 where
    s5: "update_battery_limits e ?s4 = Inr s5" and
    s6: "if Mode s5 = ''On'' \<or> Mode s5 = ''ChargeOnly''
         then \<exists>s'. update_ac_output_current e s5 = Inr s' \<and> s6 = check_reverse_power s'
         else s6 = s5" and
    s': "s' = set_inverter_switch_mode e (update_inverter_switch_mode e (set_outputs e
        (update_relay_states e s6)))"
    by blast
  have m6: "Mode s' = Mode s6" by (simp add: s' tail_frame)
  have "Mode s6 = Mode s5"
    using s6 by (auto simp add: check_reverse_power_frame update_ac_output_current_frame split: if_splits)
  with m6 assms(2) s6 have "s6 = s5" by (simp split: if_splits)
  then show "Reverse_Power_Counter s' = Reverse_Power_Counter s"
    "Reverse_Power_Alarm s' = Reverse_Power_Alarm s"
    using update_battery_limits_frame [OF s5] by (simp_all add: s' tail_frame head_frame)
qed

lemma tick_reverse_power_on:
  assumes "tick e s = Inr s'" "Mode s' = ''On'' \<or> Mode s' = ''ChargeOnly''"
  shows "\<exists>a. Reverse_Power_Counter s' =
           Reverse_Power_Counter (check_reverse_power (s\<lparr>Mode := Mode s', AC_Output_Current := a\<rparr>)) \<and>
         Reverse_Power_Alarm s' =
           Reverse_Power_Alarm (check_reverse_power (s\<lparr>Mode := Mode s', AC_Output_Current := a\<rparr>)) \<and>
         (\<forall>v. reading e ac_output_current = Value (Some v) \<longrightarrow> creatable e ac_output_current \<longrightarrow>
            a = Some (round1 v))"
proof -
  let ?s4 = "update_battery_soc e (update_mode (update_inputs e (check_and_create_connections e s)))"
  from tick_InrD [OF assms(1)] obtain s5 s6 where
    s5: "update_battery_limits e ?s4 = Inr s5" and
    s6: "if Mode s5 = ''On'' \<or> Mode s5 = ''ChargeOnly''
         then \<exists>s'. update_ac_output_current e s5 = Inr s' \<and> s6 = check_reverse_power s'
         else s6 = s5" and
    s': "s' = set_inverter_switch_mode e (update_inverter_switch_mode e (set_outputs e
        (update_relay_states e s6)))"
    by blast
  have m6: "Mode s' = Mode s6" by (simp add: s' tail_frame)
  have "Mode s6 = Mode s5"
    using s6 by (auto simp add: check_reverse_power_frame update_ac_output_current_frame split: if_splits)
  with m6 assms(2) s6 obtain t where
    t: "update_ac_output_current e s5 = Inr t" and s6t: "s6 = check_reverse_power t"
    by (auto split: if_splits)
  note f5 = update_battery_limits_frame [OF s5]
  note ft = update_ac_output_current_frame [OF t]
  have mt: "Mode t = Mode s'" by (simp add: m6 s6t check_reverse_power_frame)
  let ?u = "s\<lparr>Mode := Mode s', AC_Output_Current := AC_Output_Current t\<rparr>"
  have cong: "Reverse_Power_Counter (check_reverse_power t) = Reverse_Power_Counter (check_reverse_power ?u)"
    "Reverse_Power_Alarm (check_reverse_power t) = Reverse_Power_Alarm (check_reverse_power ?u)"
    by (rule check_reverse_power_cong; simp add: mt ft f5 head_frame)+
  have items: "dbus_items s5 ac_output_current =
      (if dbus_items s ac_output_current \<noteq> Some Item
       then Some (if creatable e ac_output_current then Item else NoItem)
       else dbus_items s ac_output_current)"
    by (simp add: f5 update_battery_soc_items update_mode_frame update_inputs_frame
        check_and_create_connections_items dbus_items_spec_def)
  have val: "\<forall>v. reading e ac_output_current = Value (Some v) \<longrightarrow> creatable e ac_output_current \<longrightarrow>
      AC_Output_Current t = Some (round1 v)"
    using update_ac_output_current_value [OF t] items by (auto split: if_splits)
  show ?thesis
    using cong val by (intro exI [of _ "AC_Output_Current t"]) (simp add: s' s6t tail_frame)
qed

lemma tick_detected:
  assumes "tick e s = Inr s'" "Mode s' = ''On'' \<or> Mode s' = ''ChargeOnly''"
    "reading e ac_output_current = Value (Some v)" "creatable e ac_output_current"
    "round1 v < REVERSE_POWER_CURRENT_THRESHOLD"
  shows "Reverse_Power_Counter s' = Reverse_Power_Counter s + 1"
    "Reverse_Power_Alarm s' \<longleftrightarrow> Reverse_Power_Alarm s \<or> 10 \<le> Reverse_Power_Counter s + 1"
proof -
  from tick_reverse_power_on [OF assms(1,2)] assms(3,4) have
    c: "Reverse_Power_Counter s' = Reverse_Power_Counter
          (check_reverse_power (s\<lparr>Mode := Mode s', AC_Output_Current := Some (round1 v)\<rparr>))" and
    a: "Reverse_Power_Alarm s' = Reverse_Power_Alarm
          (check_reverse_power (s\<lparr>Mode := Mode s', AC_Output_Current := Some (round1 v)\<rparr>))"
    by auto
  show "Reverse_Power_Counter s' = Reverse_Power_Counter s + 1"
    using assms(5) by (simp add: c check_reverse_power_def Let_def Reverse_Power_Detected_def)
  show "Reverse_Power_Alarm s' \<longleftrightarrow> Reverse_Power_Alarm s \<or> 10 \<le> Reverse_Power_Counter s + 1"
    using assms(2,5)
    by (auto simp add: a check_reverse_power_def Let_def Reverse_Power_Detected_def
        REVERSE_POWER_COUNTER_THRESHOLD_def TIMESTEP_def)
qed

lemma tick_not_detected:
  assumes "tick e s = Inr s'" "Mode s' = ''On'' \<or> Mode s' = ''ChargeOnly''"
    "reading e ac_output_current = Value (Some v)" "creatable e ac_output_current"
    "\<not> round1 v < REVERSE_POWER_CURRENT_THRESHOLD"
  shows "Reverse_Power_Counter s' = max 0 (Reverse_Power_Counter s - 1)"
    "Reverse_Power_Alarm s' \<longleftrightarrow> Reverse_Power_Alarm s \<or> 10 \<le> max 0 (Reverse_Power_Counter s - 1)"
proof -
  from tick_reverse_power_on [OF assms(1,2)] assms(3,4) have
    c: "Reverse_Power_Counter s' = Reverse_Power_Counter
          (check_reverse_power (s\<lparr>Mode := Mode s', AC_Output_Current := Some (round1 v)\<rparr>))" and
    a: "Reverse_Power_Alarm s' = Reverse_Power_Alarm
          (check_reverse_power (s\<lparr>Mode := Mode s', AC_Output_Current := Some (round1 v)\<rparr>))"
    by auto
  show "Reverse_Power_Counter s' = max 0 (Reverse_Power_Counter s - 1)"
    using assms(5) by (simp add: c check_reverse_power_def Let_def Reverse_Power_Detected_def)
  show "Reverse_Power_Alarm s' \<longleftrightarrow> Reverse_Power_Alarm s \<or> 10 \<le> max 0 (Reverse_Power_Counter s - 1)"
    using assms(2,5)
    by (auto simp add: a check_reverse_power_def Let_def Reverse_Power_Detected_def
        REVERSE_POWER_COUNTER_THRESHOLD_def TIMESTEP_def)
qed

lemma tick_alarm_latched:
  assumes "tick e s = Inr s'" "Reverse_Power_Alarm s"
  shows "Reverse_Power_Alarm s'"
proof (cases "Mode s' = ''On'' \<or> Mode s' = ''ChargeOnly''")
  case True
  from tick_reverse_power_on [OF assms(1) True] obtain a where
    "Reverse_Power_Alarm s' = Reverse_Power_Alarm
          (check_reverse_power (s\<lparr>Mode := Mode s', AC_Output_Current := a\<rparr>))"
    by blast
  with True assms(2) show ?thesis
    by (auto simp add: check_reverse_power_def Let_def)
next
  case False
  with tick_reverse_power_off [OF assms(1)] assms(2) show ?thesis by simp
qed

lemma tick_on_alone:
  assumes "tick e s = Inr s'" "On_Button (gpio e)" "\<not> Off_Button (gpio e)" "\<not> Charge_Button (gpio e)"
  shows "Mode s' = ''On''"
  using assms(2-4)
  by (simp add: tick_Mode [OF assms(1)] update_mode_def Let_def update_inputs_def
      Off_Button_Pressed_def On_Button_Pressed_def Charge_Button_Pressed_def)

lemma tick_off_alone:
  assumes "tick e s = Inr s'" "Off_Button (gpio e)" "\<not> On_Button (gpio e)" "\<not> Charge_Button (gpio e)"
  shows "Mode s' = ''Off''"
  using assms(2-4)
  by (simp add: tick_Mode [OF assms(1)] update_mode_def Let_def update_inputs_def
      Off_Button_Pressed_def On_Button_Pressed_def Charge_Button_Pressed_def)

lemma tick_no_button:
  assumes "tick e s = Inr s'" "\<not> Off_Button (gpio e)" "\<not> On_Button (gpio e)" "\<not> Charge_Button (gpio e)"
  shows "Mode s' = (if Mode s = '''' then ''Off'' else Mode s)"
  using assms(2-4)
  by (simp add: tick_Mode [OF assms(1)] update_mode_def Let_def update_inputs_def DEFAULT_MODE_def
      Off_Button_Pressed_def On_Button_Pressed_def Charge_Button_Pressed_def)

lemma is_value_iff: "is_value r \<longleftrightarrow> (\<exists>v. r = Value (Some v))"
  by (cases r rule: is_value.cases) simp_all

lemma tick_healthy:
  assumes "healthy e"
  shows "\<exists>s'. tick e s = Inr s'"
proof -
  let ?s4 = "update_battery_soc e (update_mode (update_inputs e (check_and_create_connections e s)))"
  let ?tail = "\<lambda>s6. set_inverter_switch_mode e (update_inverter_switch_mode e (set_outputs e
        (update_relay_states e s6)))"
  have items: "dbus_items ?s4 battery_charge_limit = Some Item"
    "dbus_items ?s4 battery_discharge_limit = Some Item"
    "dbus_items ?s4 ac_output_current = Some Item"
    using assms
    by (simp_all add: healthy_def update_battery_soc_items update_mode_frame update_inputs_frame
        check_and_create_connections_items dbus_items_spec_def)
  from assms items obtain s5 where s5: "update_battery_limits e ?s4 = Inr s5"
    using update_battery_limits_Inr_iff [of e ?s4] by (auto simp add: healthy_def is_value_iff)
  have "dbus_items s5 ac_output_current = Some Item"
    using update_battery_limits_frame [OF s5] items by simp
  then obtain t where t: "update_ac_output_current e s5 = Inr t"
    using update_ac_output_current_Inr_iff [of e s5] assms
    by (auto simp add: healthy_def is_value_iff)
  define s6 where "s6 = (if Mode s5 = ''On'' \<or> Mode s5 = ''ChargeOnly'' then check_reverse_power t else s5)"
  have in6: "input_values s6 = gpio e"
    using update_battery_limits_frame [OF s5] update_ac_output_current_frame [OF t]
    by (simp add: s6_def check_reverse_power_frame head_frame)
  have nr: "\<not> Service_Restart_Requested (?tail s6)"
    using assms
    by (simp add: Service_Restart_Requested_def Off_Button_Pressed_def On_Button_Pressed_def
        Charge_Button_Pressed_def tail_frame in6 healthy_def)
  have mid: "(if Mode s5 = ''On'' \<or> Mode s5 = ''ChargeOnly''
       then bind_e (update_ac_output_current e s5) (\<lambda>s'. Inr (check_reverse_power s'))
       else Inr s5) = Inr s6"
    using t by (simp add: s6_def)
  have "tick e s = Inr (?tail s6)"
    unfolding tick_def Let_def by (simp only: s5 bind_e.simps mid nr if_False)
  then show ?thesis ..
qed

lemma tick_TypeError:
  assumes "(\<forall>v. reading e battery_charge_limit \<noteq> Value (Some v)) \<or>
     (\<not> creatable e battery_charge_limit \<and> dbus_items s battery_charge_limit \<noteq> Some Item)"
  shows "tick e s = Inl TypeError"
proof -
  let ?s4 = "update_battery_soc e (update_mode (update_inputs e (check_and_create_connections e s)))"
  have "dbus_items ?s4 battery_charge_limit =
      (if dbus_items s battery_charge_limit \<noteq> Some Item
       then Some (if creatable e battery_charge_limit then Item else NoItem)
       else dbus_items s battery_charge_limit)"
    by (simp add: update_battery_soc_items update_mode_frame update_inputs_frame
        check_and_create_connections_items dbus_items_spec_def)
  with assms have "\<forall>s'. update_battery_limits e ?s4 \<noteq> Inr s'"
    using update_battery_limits_Inr_iff [of e ?s4] by (auto split: if_splits)
  then have "update_battery_limits e ?s4 = Inl TypeError"
    by (rule update_battery_limits_TypeError)
  then show ?thesis
    unfolding tick_def Let_def by simp
qed

lemma tick_KeyError:
  assumes "creatable e battery_charge_limit \<and> creatable e battery_discharge_limit \<and>
      creatable e ac_output_current \<and> is_value (reading e battery_charge_limit) \<and>
      is_value (reading e battery_discharge_limit)"
    "reading e ac_output_current = DBusException"
    "On_Button (gpio e)" "\<not> Off_Button (gpio e)" "\<not> Charge_Button (gpio e)"
  shows "tick e s = Inl KeyError"
proof -
  let ?s3 = "update_mode (update_inputs e (check_and_create_connections e s))"
  let ?s4 = "update_battery_soc e ?s3"
  have items: "dbus_items ?s4 battery_charge_limit = Some Item"
    "dbus_items ?s4 battery_discharge_limit = Some Item"
    "dbus_items ?s4 ac_output_current = Some Item"
    using assms(1)
    by (simp_all add: update_battery_soc_items update_mode_frame update_inputs_frame
        check_and_create_connections_items dbus_items_spec_def)
  from assms(1) items obtain s5 where s5: "update_battery_limits e ?s4 = Inr s5"
    using update_battery_limits_Inr_iff [of e ?s4] by (auto simp add: is_value_iff)
  note f5 = update_battery_limits_frame [OF s5]
  have "Mode ?s3 = ''On''"
    using assms(3-5) by (simp add: update_mode_def Let_def update_inputs_def button_defs)
  then have m5: "Mode s5 = ''On''"
    by (simp add: f5 update_battery_soc_frame)
  have "update_ac_output_current e s5 = Inl KeyError"
    using items(3) assms(2) by (simp add: update_ac_output_current_KeyError f5)
  then show ?thesis
    unfolding tick_def Let_def by (simp add: s5 m5)
qed

section \<open>Requests made during a tick\<close>

text \<open>
  \<open>set_outputs\<close> requests a write for each relay whose target differs from the recorded
  state, in the order of the relays, and nothing else; the rest of a tick adds at most
  the inverter command.
\<close>

lemma set_relay_requests:
  "set_requests (set_relay e n v s) =
     set_requests s @ (if relay_states s n \<noteq> Some (coerce v) then [(relay n, Some (coerce v))] else [])"
  by (auto simp add: set_relay_def set_dbus_value_requests)

lemma set_dbus_value_frame2:
  "relay_states (set_dbus_value e name v s) = relay_states s"
  "Battery_SOC (set_dbus_value e name v s) = Battery_SOC s"
  "Toggle_State (set_dbus_value e name v s) = Toggle_State s"
  by (simp_all add: set_dbus_value_def pop_item_def Let_def split: option.split slot.split)

lemma set_relay_frame2:
  "relay_states (set_relay e n v s) = relay_states s"
  "Battery_SOC (set_relay e n v s) = Battery_SOC s"
  "Toggle_State (set_relay e n v s) = Toggle_State s"
  by (simp_all add: set_relay_def set_dbus_value_frame2)

lemma set_relay_outputs:
  "On_LED (set_relay e n v s) = On_LED s"
  "Charge_LED (set_relay e n v s) = Charge_LED s"
  "BMS_Wake (set_relay e n v s) = BMS_Wake s"
  "DSE_Remote_Start (set_relay e n v s) = DSE_Remote_Start s"
  "DSE_Mode_Request (set_relay e n v s) = DSE_Mode_Request s"
  "RCD_Reset_Switch (set_relay e n v s) = RCD_Reset_Switch s"
  by (simp_all add: On_LED_def Charge_LED_def BMS_Wake_def DSE_Remote_Start_def DSE_Mode_Request_def
      RCD_Reset_Switch_def button_defs set_relay_frame set_relay_frame2)

lemma toggle_outputs:
  "On_LED (s\<lparr>Toggle_State := b\<rparr>) = On_LED s"
  "Charge_LED (s\<lparr>Toggle_State := b\<rparr>) = Charge_LED s"
  "BMS_Wake (s\<lparr>Toggle_State := b\<rparr>) = BMS_Wake s"
  "DSE_Remote_Start (s\<lparr>Toggle_State := b\<rparr>) = DSE_Remote_Start s"
  "DSE_Mode_Request (s\<lparr>Toggle_State := b\<rparr>) = DSE_Mode_Request s"
  "RCD_Reset_Switch (s\<lparr>Toggle_State := b\<rparr>) = RCD_Reset_Switch s"
  by (simp_all add: On_LED_def Charge_LED_def BMS_Wake_def DSE_Remote_Start_def DSE_Mode_Request_def
      RCD_Reset_Switch_def button_defs)

lemma set_outputs_requests:
  "set_requests (set_outputs e s) = set_requests s @
     (if relay_states s 2 \<noteq> Some (coerce (TBool (if Fault_Detected s then Toggle_State s else Off_LED s)))
      then [(relay 2, Some (coerce (TBool (if Fault_Detected s then Toggle_State s else Off_LED s))))]
      else []) @
     (if relay_states s 3 \<noteq> Some (coerce (TBool (On_LED s)))
      then [(relay 3, Some (coerce (TBool (On_LED s))))] else []) @
     (if relay_states s 4 \<noteq> Some (coerce (TBool (Charge_LED s)))
      then [(relay 4, Some (coerce (TBool (Charge_LED s))))] else []) @
     (if relay_states s 5 \<noteq> Some (coerce (TBool (BMS_Wake s)))
      then [(relay 5, Some (coerce (TBool (BMS_Wake s))))] else []) @
     (if relay_states s 6 \<noteq> Some (coerce (TBool (DSE_Remote_Start s)))
      then [(relay 6, Some (coerce (TBool (DSE_Remote_Start s))))] else []) @
     (if relay_states s 7 \<noteq> Some (coerce (TBool (DSE_Mode_Request s)))
      then [(relay 7, Some (coerce (TBool (DSE_Mode_Request s))))] else []) @
     (if relay_states s 8 \<noteq> Some (coerce (TBool (RCD_Reset_Switch s)))
      then [(relay 8, Some (coerce (TBool (RCD_Reset_Switch s))))] else []) @
     (if relay_states s 9 \<noteq> Some (coerce (TBool (Reverse_Power_Alarm s)))
      then [(relay 9, Some (coerce (TBool (Reverse_Power_Alarm s))))] else [])"
proof -
  define s2 where "s2 = (if Fault_Detected s
                then (set_relay e 2 (TBool (Toggle_State s)) s)\<lparr>Toggle_State := \<not> Toggle_State s\<rparr>
                else set_relay e 2 (TBool (Off_LED s)) s)"
  define s3 where "s3 = set_relay e 3 (TBool (On_LED s2)) s2"
  define s4 where "s4 = set_relay e 4 (TBool (Charge_LED s3)) s3"
  define s5 where "s5 = set_relay e 5 (TBool (BMS_Wake s4)) s4"
  define s6 where "s6 = set_relay e 6 (TBool (DSE_Remote_Start s5)) s5"
  define s7 where "s7 = set_relay e 7 (TBool (DSE_Mode_Request s6)) s6"
  define s8 where "s8 = set_relay e 8 (TBool (RCD_Reset_Switch s7)) s7"
  have out: "set_outputs e s = set_relay e 9 (TBool (Reverse_Power_Alarm s8)) s8"
    by (simp add: set_outputs_def Let_def s2_def s3_def s4_def s5_def s6_def s7_def s8_def)
  have f2: "relay_states s2 = relay_states s" "On_LED s2 = On_LED s" "Charge_LED s2 = Charge_LED s"
    "BMS_Wake s2 = BMS_Wake s" "DSE_Remote_Start s2 = DSE_Remote_Start s"
    "DSE_Mode_Request s2 = DSE_Mode_Request s" "RCD_Reset_Switch s2 = RCD_Reset_Switch s"
    "Reverse_Power_Alarm s2 = Reverse_Power_Alarm s"
    by (simp_all add: s2_def set_relay_frame set_relay_frame2 set_relay_outputs toggle_outputs)
  have r2: "set_requests s2 = set_requests s @
     (if relay_states s 2 \<noteq> Some (coerce (TBool (if Fault_Detected s then Toggle_State s else Off_LED s)))
      then [(relay 2, Some (coerce (TBool (if Fault_Detected s then Toggle_State s else Off_LED s))))]
      else [])"
    by (simp add: s2_def set_relay_requests)
  have f3: "relay_states s3 = relay_states s" "Charge_LED s3 = Charge_LED s"
    "BMS_Wake s3 = BMS_Wake s" "DSE_Remote_Start s3 = DSE_Remote_Start s"
    "DSE_Mode_Request s3 = DSE_Mode_Request s" "RCD_Reset_Switch s3 = RCD_Reset_Switch s"
    "Reverse_Power_Alarm s3 = Reverse_Power_Alarm s"
    by (simp_all add: s3_def f2 set_relay_frame set_relay_frame2 set_relay_outputs)
  have f4: "relay_states s4 = relay_states s"
    "BMS_Wake s4 = BMS_Wake s" "DSE_Remote_Start s4 = DSE_Remote_Start s"
    "DSE_Mode_Request s4 = DSE_Mode_Request s" "RCD_Reset_Switch s4 = RCD_Reset_Switch s"
    "Reverse_Power_Alarm s4 = Reverse_Power_Alarm s"
    by (simp_all add: s4_def f3 set_relay_frame set_relay_frame2 set_relay_outputs)
  have f5: "relay_states s5 = relay_states s" "DSE_Remote_Start s5 = DSE_Remote_Start s"
    "DSE_Mode_Request s5 = DSE_Mode_Request s" "RCD_Reset_Switch s5 = RCD_Reset_Switch s"
    "Reverse_Power_Alarm s5 = Reverse_Power_Alarm s"
    by (simp_all add: s5_def f4 set_relay_frame set_relay_frame2 set_relay_outputs)
  have f6: "relay_states s6 = relay_states s"
    "DSE_Mode_Request s6 = DSE_Mode_Request s" "RCD_Reset_Switch s6 = RCD_Reset_Switch s"
    "Reverse_Power_Alarm s6 = Reverse_Power_Alarm s"
    by (simp_all add: s6_def f5 set_relay_frame set_relay_frame2 set_relay_outputs)
  have f7: "relay_states s7 = relay_states s" "RCD_Reset_Switch s7 = RCD_Reset_Switch s"
    "Reverse_Power_Alarm s7 = Reverse_Power_Alarm s"
    by (simp_all add: s7_def f6 set_relay_frame set_relay_frame2 set_relay_outputs)
  have f8: "relay_states s8 = relay_states s" "Reverse_Power_Alarm s8 = Reverse_Power_Alarm s"
    by (simp_all add: s8_def f7 set_relay_frame set_relay_frame2 set_relay_outputs)
  have "set_requests (set_outputs e s) =
    set_requests s8 @ (if relay_states s 9 \<noteq> Some (coerce (TBool (Reverse_Power_Alarm s)))
      then [(relay 9, Some (coerce (TBool (Reverse_Power_Alarm s))))] else [])"
    unfolding out set_relay_requests f8 ..
  also have "set_requests s8 = set_requests s7 @ (if relay_states s 8 \<noteq> Some (coerce (TBool (RCD_Reset_Switch s)))
      then [(relay 8, Some (coerce (TBool (RCD_Reset_Switch s))))] else [])"
    unfolding s8_def set_relay_requests f7 ..
  also have "set_requests s7 = set_requests s6 @ (if relay_states s 7 \<noteq> Some (coerce (TBool (DSE_Mode_Request s)))
      then [(relay 7, Some (coerce (TBool (DSE_Mode_Request s))))] else [])"
    unfolding s7_def set_relay_requests f6 ..
  also have "set_requests s6 = set_requests s5 @ (if relay_states s 6 \<noteq> Some (coerce (TBool (DSE_Remote_Start s)))
      then [(relay 6, Some (coerce (TBool (DSE_Remote_Start s))))] else [])"
    unfolding s6_def set_relay_requests f5 ..
  also have "set_requests s5 = set_requests s4 @ (if relay_states s 5 \<noteq> Some (coerce (TBool (BMS_Wake s)))
      then [(relay 5, Some (coerce (TBool (BMS_Wake s))))] else [])"
    unfolding s5_def set_relay_requests f4 ..
  also have "set_requests s4 = set_requests s3 @ (if relay_states s 4 \<noteq> Some (coerce (TBool (Charge_LED s)))
      then [(relay 4, Some (coerce (TBool (Charge_LED s))))] else [])"
    unfolding s4_def set_relay_requests f3 ..
  also have "set_requests s3 = set_requests s2 @ (if relay_states s 3 \<noteq> Some (coerce (TBool (On_LED s)))
      then [(relay 3, Some (coerce (TBool (On_LED s))))] else [])"
    unfolding s3_def set_relay_requests f2 ..
  also note r2
  finally show ?thesis by (simp only: append_assoc)
qed

lemma get_dbus_value_frame3:
  "set_requests (snd (get_dbus_value name r s)) = set_requests s"
  "inverter_delay (snd (get_dbus_value name r s)) = inverter_delay s"
  "inverter_switch_mode_update_time (snd (get_dbus_value name r s)) = inverter_switch_mode_update_time s"
  by (simp_all add: get_dbus_value_def pop_item_def split: option.split slot.split reply.split)

lemma head_frame3:
  "set_requests (check_and_create_connections e s) = set_requests s"
  "inverter_delay (check_and_create_connections e s) = inverter_delay s"
  "inverter_switch_mode_update_time (check_and_create_connections e s) = inverter_switch_mode_update_time s"
  "set_requests (update_inputs e s) = set_requests s"
  "inverter_delay (update_inputs e s) = inverter_delay s"
  "inverter_switch_mode_update_time (update_inputs e s) = inverter_switch_mode_update_time s"
  "set_requests (update_mode s) = set_requests s"
  "inverter_delay (update_mode s) = inverter_delay s"
  "inverter_switch_mode_update_time (update_mode s) = inverter_switch_mode_update_time s"
  "set_requests (update_battery_soc e s) = set_requests s"
  "inverter_delay (update_battery_soc e s) = inverter_delay s"
  "inverter_switch_mode_update_time (update_battery_soc e s) = inverter_switch_mode_update_time s"
  "set_requests (check_reverse_power s) = set_requests s"
  "inverter_delay (check_reverse_power s) = inverter_delay s"
  "inverter_switch_mode_update_time (check_reverse_power s) = inverter_switch_mode_update_time s"
  by (simp_all add: check_and_create_connections_def update_inputs_def update_mode_def Let_def
      button_defs update_battery_soc_def get_dbus_value_def pop_item_def check_reverse_power_def
      split: option.split slot.split reply.split)

lemma update_battery_limits_frame3:
  assumes "update_battery_limits e s = Inr s'"
  shows "set_requests s' = set_requests s"
    "inverter_delay s' = inverter_delay s"
    "inverter_switch_mode_update_time s' = inverter_switch_mode_update_time s"
  using assms
  by (auto simp add: update_battery_limits_def get_dbus_value_def pop_item_def
      split: option.splits slot.splits reply.splits)

lemma update_ac_output_current_frame3:
  assumes "update_ac_output_current e s = Inr s'"
  shows "set_requests s' = set_requests s"
    "inverter_delay s' = inverter_delay s"
    "inverter_switch_mode_update_time s' = inverter_switch_mode_update_time s"
  using assms
  by (auto simp add: update_ac_output_current_def get_dbus_value_def pop_item_def clear_dbus_item_def
      split: option.splits slot.splits reply.splits if_splits)

lemma update_relay_loop_frame3:
  "set_requests (update_relay_loop e ns s) = set_requests s"
  "inverter_delay (update_relay_loop e ns s) = inverter_delay s"
  "inverter_switch_mode_update_time (update_relay_loop e ns s) = inverter_switch_mode_update_time s"
  by (induction ns arbitrary: s; simp add: split_beta get_dbus_value_frame3)+

lemma update_relay_states_frame3:
  "set_requests (update_relay_states e s) = set_requests s"
  "inverter_delay (update_relay_states e s) = inverter_delay s"
  "inverter_switch_mode_update_time (update_relay_states e s) = inverter_switch_mode_update_time s"
  unfolding update_relay_states_def update_relay_loop_frame3 by simp_all

lemma set_outputs_relay_states: "relay_states (set_outputs e s) = relay_states s"
  by (simp add: set_outputs_def Let_def set_relay_frame2)

lemma update_inverter_switch_mode_frame3:
  "set_requests (update_inverter_switch_mode e s) = set_requests s"
  "relay_states (update_inverter_switch_mode e s) = relay_states s"
  by (simp_all add: update_inverter_switch_mode_def get_dbus_value_def pop_item_def
      split: option.split slot.split reply.split)

lemma set_inverter_switch_mode_frame3:
  "relay_states (set_inverter_switch_mode e s) = relay_states s"
  "Inverter_Switch_Mode (set_inverter_switch_mode e s) = Inverter_Switch_Mode s"
  "Battery_Charge_Limit (set_inverter_switch_mode e s) = Battery_Charge_Limit s"
  "Battery_Discharge_Limit (set_inverter_switch_mode e s) = Battery_Discharge_Limit s"
  "Inverter_Switch_Mode_Target (set_inverter_switch_mode e s) = Inverter_Switch_Mode_Target s"
  by (simp_all add: set_inverter_switch_mode_def Battery_Contactors_Closed_def Let_def
      set_dbus_value_def pop_item_def Inverter_Switch_Mode_Target_def
      split: option.split slot.split)

lemma tick_tail:
  assumes "tick e t = Inr t'"
  shows "\<exists>s7. t' = set_inverter_switch_mode e (update_inverter_switch_mode e (set_outputs e s7)) \<and>
     set_requests s7 = set_requests t \<and> inverter_delay s7 = inverter_delay t \<and>
     inverter_switch_mode_update_time s7 = inverter_switch_mode_update_time t \<and>
     relay_states s7 = relay_states t'"
proof -
  let ?s4 = "update_battery_soc e (update_mode (update_inputs e (check_and_create_connections e t)))"
  from tick_InrD [OF assms] obtain s5 s6 where
    s5: "update_battery_limits e ?s4 = Inr s5" and
    s6: "if Mode s5 = ''On'' \<or> Mode s5 = ''ChargeOnly''
         then \<exists>s'. update_ac_output_current e s5 = Inr s' \<and> s6 = check_reverse_power s'
         else s6 = s5" and
    t': "t' = set_inverter_switch_mode e (update_inverter_switch_mode e (set_outputs e
        (update_relay_states e s6)))"
    by blast
  have f5: "set_requests s5 = set_requests t" "inverter_delay s5 = inverter_delay t"
    "inverter_switch_mode_update_time s5 = inverter_switch_mode_update_time t"
    using update_battery_limits_frame3 [OF s5] by (simp_all add: head_frame3)
  have f6: "set_requests s6 = set_requests s5 \<and> inverter_delay s6 = inverter_delay s5 \<and>
    inverter_switch_mode_update_time s6 = inverter_switch_mode_update_time s5"
    using s6 by (auto simp add: head_frame3 update_ac_output_current_frame3 split: if_splits)
  let ?s7 = "update_relay_states e s6"
  have "set_requests ?s7 = set_requests t \<and> inverter_delay ?s7 = inverter_delay t \<and>
     inverter_switch_mode_update_time ?s7 = inverter_switch_mode_update_time t"
    using f5 f6 by (simp add: update_relay_states_frame3)
  moreover have "relay_states ?s7 = relay_states t'"
    by (simp add: t' set_inverter_switch_mode_frame3 update_inverter_switch_mode_frame3
        set_outputs_relay_states)
  ultimately show ?thesis using t' by blast
qed

lemma set_outputs_unchanged:
  assumes "relay_states s 2 = Some (coerce (TBool (if Fault_Detected s then Toggle_State s else Off_LED s)))"
    "relay_states s 3 = Some (coerce (TBool (On_LED s)))"
    "relay_states s 4 = Some (coerce (TBool (Charge_LED s)))"
    "relay_states s 5 = Some (coerce (TBool (BMS_Wake s)))"
    "relay_states s 6 = Some (coerce (TBool (DSE_Remote_Start s)))"
    "relay_states s 7 = Some (coerce (TBool (DSE_Mode_Request s)))"
    "relay_states s 8 = Some (coerce (TBool (RCD_Reset_Switch s)))"
    "relay_states s 9 = Some (coerce (TBool (Reverse_Power_Alarm s)))"
  shows "set_outputs e s = (if Fault_Detected s then s\<lparr>Toggle_State := \<not> Toggle_State s\<rparr> else s)"
proof -
  let ?s2 = "if Fault_Detected s then s\<lparr>Toggle_State := \<not> Toggle_State s\<rparr> else s"
  have s2: "(if Fault_Detected s
                then (set_relay e 2 (TBool (Toggle_State s)) s)\<lparr>Toggle_State := \<not> Toggle_State s\<rparr>
                else set_relay e 2 (TBool (Off_LED s)) s) = ?s2"
    using assms(1) by (simp add: set_relay_def)
  have f: "relay_states ?s2 = relay_states s" "On_LED ?s2 = On_LED s" "Charge_LED ?s2 = Charge_LED s"
    "BMS_Wake ?s2 = BMS_Wake s" "DSE_Remote_Start ?s2 = DSE_Remote_Start s"
    "DSE_Mode_Request ?s2 = DSE_Mode_Request s" "RCD_Reset_Switch ?s2 = RCD_Reset_Switch s"
    "Reverse_Power_Alarm ?s2 = Reverse_Power_Alarm s"
    by (simp_all add: toggle_outputs)
  have r: "\<And>n v. relay_states s n = Some (coerce v) \<Longrightarrow> set_relay e n v ?s2 = ?s2"
    by (simp add: set_relay_def)
  show ?thesis
    unfolding set_outputs_def Let_def s2
    by (simp only: f r assms(2-8))
qed


lemma set_outputs_inverter_requests:
  "[r\<leftarrow>set_requests (set_outputs e s). fst r = inverter_switch_mode] =
   [r\<leftarrow>set_requests s. fst r = inverter_switch_mode]"
proof -
  have no: "\<And>c n v. [r\<leftarrow>(if c then [(relay n, v)] else []). fst r = inverter_switch_mode] = []"
    by simp
  show ?thesis
    unfolding set_outputs_requests filter_append no by simp
qed

lemma set_inverter_switch_mode_step:
  "(set_requests (set_inverter_switch_mode e s) \<noteq> set_requests s \<longleftrightarrow>
      Inverter_Switch_Mode_Target s \<noteq> Some (Inverter_Switch_Mode s) \<and>
      Battery_Charge_Limit s \<noteq> 0 \<and> Battery_Discharge_Limit s \<noteq> 0 \<and>
      inverter_delay s = 0 \<and>
      clock_check e - inverter_switch_mode_update_time s > 5) \<and>
   (set_requests (set_inverter_switch_mode e s) \<noteq> set_requests s \<longrightarrow>
      set_requests (set_inverter_switch_mode e s) =
        set_requests s @ [(inverter_switch_mode, Inverter_Switch_Mode_Target s)] \<and>
      inverter_switch_mode_update_time (set_inverter_switch_mode e s) = clock_record e) \<and>
   (set_requests (set_inverter_switch_mode e s) = set_requests s \<longrightarrow>
      inverter_switch_mode_update_time (set_inverter_switch_mode e s) =
        inverter_switch_mode_update_time s) \<and>
   (Inverter_Switch_Mode_Target s \<noteq> Some (Inverter_Switch_Mode s) \<and>
      (Battery_Charge_Limit s = 0 \<or> Battery_Discharge_Limit s = 0) \<longrightarrow>
        inverter_delay (set_inverter_switch_mode e s) = 10) \<and>
   (Inverter_Switch_Mode_Target s \<noteq> Some (Inverter_Switch_Mode s) \<and>
      Battery_Charge_Limit s \<noteq> 0 \<and> Battery_Discharge_Limit s \<noteq> 0 \<longrightarrow>
        inverter_delay (set_inverter_switch_mode e s) = max 0 (inverter_delay s - 1)) \<and>
   (Inverter_Switch_Mode_Target s = Some (Inverter_Switch_Mode s) \<longrightarrow>
        inverter_delay (set_inverter_switch_mode e s) = inverter_delay s)"
  by (simp add: set_inverter_switch_mode_def Battery_Contactors_Closed_def Let_def
      set_dbus_value_requests set_dbus_value_frame Inverter_Switch_Mode_Target_def)

lemma tick_switch:
  assumes "tick e t = Inr t'"
  shows "\<exists>s9. t' = set_inverter_switch_mode e s9 \<and>
     inverter_delay s9 = inverter_delay t \<and>
     inverter_switch_mode_update_time s9 = inverter_switch_mode_update_time t \<and>
     [r\<leftarrow>set_requests s9. fst r = inverter_switch_mode] =
       [r\<leftarrow>set_requests t. fst r = inverter_switch_mode]"
proof -
  from tick_tail [OF assms] obtain s7 where
    t': "t' = set_inverter_switch_mode e (update_inverter_switch_mode e (set_outputs e s7))" and
    f: "set_requests s7 = set_requests t" "inverter_delay s7 = inverter_delay t"
      "inverter_switch_mode_update_time s7 = inverter_switch_mode_update_time t"
    by blast
  let ?s9 = "update_inverter_switch_mode e (set_outputs e s7)"
  have "inverter_delay ?s9 = inverter_delay t"
    "inverter_switch_mode_update_time ?s9 = inverter_switch_mode_update_time t"
    "[r\<leftarrow>set_requests ?s9. fst r = inverter_switch_mode] =
       [r\<leftarrow>set_requests t. fst r = inverter_switch_mode]"
    by (simp_all add: update_inverter_switch_mode_frame update_inverter_switch_mode_frame3
        set_outputs_frame set_outputs_inverter_requests f)
  with t' show ?thesis by blast
qed

lemma tick_gate:
  assumes "tick e t = Inr t'"
  shows "([r\<leftarrow>set_requests t'. fst r = inverter_switch_mode] \<noteq>
          [r\<leftarrow>set_requests t. fst r = inverter_switch_mode] \<longleftrightarrow>
        Inverter_Switch_Mode_Target t' \<noteq> Some (Inverter_Switch_Mode t') \<and>
        Battery_Charge_Limit t' \<noteq> 0 \<and> Battery_Discharge_Limit t' \<noteq> 0 \<and>
        inverter_delay t = 0 \<and>
        clock_check e - inverter_switch_mode_update_time t > 5) \<and>
     ([r\<leftarrow>set_requests t'. fst r = inverter_switch_mode] \<noteq>
          [r\<leftarrow>set_requests t. fst r = inverter_switch_mode] \<longrightarrow>
        [r\<leftarrow>set_requests t'. fst r = inverter_switch_mode] =
          [r\<leftarrow>set_requests t. fst r = inverter_switch_mode] @
            [(inverter_switch_mode, Inverter_Switch_Mode_Target t')] \<and>
        inverter_switch_mode_update_time t' = clock_record e) \<and>
     ([r\<leftarrow>set_requests t'. fst r = inverter_switch_mode] =
          [r\<leftarrow>set_requests t. fst r = inverter_switch_mode] \<longrightarrow>
        inverter_switch_mode_update_time t' = inverter_switch_mode_update_time t)"
proof -
  from tick_switch [OF assms] obtain s9 where
    t': "t' = set_inverter_switch_mode e s9" and
    d: "inverter_delay s9 = inverter_delay t" and
    u: "inverter_switch_mode_update_time s9 = inverter_switch_mode_update_time t" and
    r: "[r\<leftarrow>set_requests s9. fst r = inverter_switch_mode] =
       [r\<leftarrow>set_requests t. fst r = inverter_switch_mode]"
    by blast
  note fr = set_inverter_switch_mode_frame3 [of e s9, folded t']
  have alt: "set_requests t' = set_requests s9 \<or>
      set_requests t' = set_requests s9 @ [(inverter_switch_mode, Inverter_Switch_Mode_Target s9)]"
    using set_inverter_switch_mode_step [of e s9] by (auto simp add: t')
  have iff: "[r\<leftarrow>set_requests t'. fst r = inverter_switch_mode] \<noteq>
          [r\<leftarrow>set_requests t. fst r = inverter_switch_mode] \<longleftrightarrow>
        set_requests t' \<noteq> set_requests s9"
    using alt r by auto
  have g: "set_requests t' \<noteq> set_requests s9 \<longleftrightarrow>
        Inverter_Switch_Mode_Target t' \<noteq> Some (Inverter_Switch_Mode t') \<and>
        Battery_Charge_Limit t' \<noteq> 0 \<and> Battery_Discharge_Limit t' \<noteq> 0 \<and>
        inverter_delay t = 0 \<and>
        clock_check e - inverter_switch_mode_update_time t > 5"
    using set_inverter_switch_mode_step [of e s9] by (simp add: fr d u t' [symmetric])
  have y: "set_requests t' \<noteq> set_requests s9 \<longrightarrow>
        [r\<leftarrow>set_requests t'. fst r = inverter_switch_mode] =
          [r\<leftarrow>set_requests t. fst r = inverter_switch_mode] @
            [(inverter_switch_mode, Inverter_Switch_Mode_Target t')] \<and>
        inverter_switch_mode_update_time t' = clock_record e"
    using set_inverter_switch_mode_step [of e s9] r by (auto simp add: fr t' [symmetric])
  have n: "set_requests t' = set_requests s9 \<longrightarrow>
        inverter_switch_mode_update_time t' = inverter_switch_mode_update_time t"
    using set_inverter_switch_mode_step [of e s9] u by (simp add: t' [symmetric])
  from iff g y n show ?thesis by blast
qed

lemma tick_delay:
  assumes "tick e t = Inr t'"
  shows "(Inverter_Switch_Mode_Target t' \<noteq> Some (Inverter_Switch_Mode t') \<and>
        (Battery_Charge_Limit t' = 0 \<or> Battery_Discharge_Limit t' = 0) \<longrightarrow>
          inverter_delay t' = 10) \<and>
     (Inverter_Switch_Mode_Target t' \<noteq> Some (Inverter_Switch_Mode t') \<and>
        Battery_Charge_Limit t' \<noteq> 0 \<and> Battery_Discharge_Limit t' \<noteq> 0 \<longrightarrow>
          inverter_delay t' = max 0 (inverter_delay t - 1)) \<and>
     (Inverter_Switch_Mode_Target t' = Some (Inverter_Switch_Mode t') \<longrightarrow>
          inverter_delay t' = inverter_delay t)"
proof -
  from tick_switch [OF assms] obtain s9 where
    t': "t' = set_inverter_switch_mode e s9" and
    d: "inverter_delay s9 = inverter_delay t"
    by blast
  note fr = set_inverter_switch_mode_frame3 [of e s9, folded t']
  show ?thesis
    using set_inverter_switch_mode_step [of e s9] d
    by (auto simp add: fr t' [symmetric])
qed

section \<open>Sequences of ticks\<close>

lemma run_append: "run (xs @ ys) s = bind_e (run xs s) (run ys)"
  by (induction xs arbitrary: s) (simp_all, metis bind_e.simps sum.exhaust)

lemma run_healthy:
  "\<forall>e\<in>set es. healthy e \<Longrightarrow> \<exists>s'. run es s = Inr s'"
proof (induction es arbitrary: s)
  case Nil
  then show ?case by simp
next
  case (Cons e es)
  then obtain s1 where "tick e s = Inr s1" using tick_healthy [of e s] by auto
  with Cons show ?case by simp
qed

lemma update_mode_valid:
  "Mode s \<in> {'''', ''Off'', ''On'', ''ChargeOnly''} \<Longrightarrow>
   Mode (update_mode s) \<in> {''Off'', ''On'', ''ChargeOnly''}"
  by (auto simp add: update_mode_def Let_def DEFAULT_MODE_def Off_Button_Pressed_def
      On_Button_Pressed_def Charge_Button_Pressed_def)

lemma run_Mode_valid:
  "run es s = Inr s' \<Longrightarrow> Mode s \<in> {'''', ''Off'', ''On'', ''ChargeOnly''} \<Longrightarrow> es \<noteq> [] \<Longrightarrow>
   Mode s' \<in> {''Off'', ''On'', ''ChargeOnly''}"
proof (induction es arbitrary: s)
  case Nil
  then show ?case by simp
next
  case (Cons e es)
  from Cons.prems(1) obtain s1 where s1: "tick e s = Inr s1" and r: "run es s1 = Inr s'"
    by (auto simp add: bind_e_Inr_iff)
  have m1: "Mode s1 \<in> {''Off'', ''On'', ''ChargeOnly''}"
    using update_mode_valid [of "update_inputs e s"] Cons.prems(2)
    by (simp add: tick_Mode [OF s1] update_inputs_frame)
  show ?case
  proof (cases "es = []")
    case True
    with r m1 show ?thesis by simp
  next
    case False
    with Cons.IH [OF r] m1 show ?thesis by blast
  qed
qed

lemma run_Mode_reachable:
  "run es (construct e0) = Inr s' \<Longrightarrow> Mode s' \<in> {'''', ''Off'', ''On'', ''ChargeOnly''}"
proof (cases "es = []")
  case True
  assume "run es (construct e0) = Inr s'"
  with True have "s' = construct e0" by simp
  then show ?thesis by (simp add: construct_fields)
next
  case False
  assume "run es (construct e0) = Inr s'"
  from run_Mode_valid [OF this _ False] show ?thesis by (simp add: construct_fields)
qed

lemma run_off_held:
  "run es s = Inr s' \<Longrightarrow> \<forall>e\<in>set es. Off_Button (gpio e) \<Longrightarrow>
   Off_Button_Pressed_Counter s' = Off_Button_Pressed_Counter s + int (length es)"
proof (induction es arbitrary: s)
  case Nil
  then show ?case by simp
next
  case (Cons e es)
  from Cons.prems(1) obtain s1 where s1: "tick e s = Inr s1" and r: "run es s1 = Inr s'"
    by (auto simp add: bind_e_Inr_iff)
  have "Off_Button_Pressed_Counter s1 = Off_Button_Pressed_Counter s + 1"
    using Cons.prems(2)
    by (simp add: tick_Mode [OF s1] update_mode_def Let_def update_inputs_def Off_Button_Pressed_def
        On_Button_Pressed_def Charge_Button_Pressed_def)
  with Cons.IH [OF r] Cons.prems(2) show ?case by simp
qed

lemma run_BMS_Disable:
  "run es s = Inr s' \<Longrightarrow> es \<noteq> [] \<Longrightarrow> Off_Button_Pressed_Counter s' \<ge> 10 \<Longrightarrow> BMS_Disable s'"
proof (induction es arbitrary: s)
  case Nil
  then show ?case by simp
next
  case (Cons e es)
  from Cons.prems(1) obtain s1 where s1: "tick e s = Inr s1" and r: "run es s1 = Inr s'"
    by (auto simp add: bind_e_Inr_iff)
  show ?case
  proof (cases "es = []")
    case True
    with r have "s' = s1" by simp
    with Cons.prems(3) show ?thesis
      by (simp add: tick_Mode [OF s1] update_mode_def Let_def update_inputs_def Off_Button_Pressed_def
        On_Button_Pressed_def Charge_Button_Pressed_def split: if_splits)
  next
    case False
    with Cons.IH [OF r] Cons.prems(3) show ?thesis by blast
  qed
qed

lemma run_alarm_latched:
  "run es s = Inr s' \<Longrightarrow> Reverse_Power_Alarm s \<Longrightarrow> Reverse_Power_Alarm s'"
proof (induction es arbitrary: s)
  case Nil
  then show ?case by simp
next
  case (Cons e es)
  from Cons.prems(1) obtain s1 where s1: "tick e s = Inr s1" and r: "run es s1 = Inr s'"
    by (auto simp add: bind_e_Inr_iff)
  from tick_alarm_latched [OF s1 Cons.prems(2)] Cons.IH [OF r] show ?case by simp
qed

lemma healthy_envs: "healthy env0" "healthy env_off" "healthy env_on" "healthy env_reverse"
  by (simp_all add: healthy_def env0_def env_off_def env_on_def env_reverse_def)

lemma round1_examples: "round1 (- 8) = - 8" "round1 2 = 2" "round1 100 = 100" "round1 0 = 0"
  by (simp_all add: round1_def Let_def)

lemma run_env_reverse:
  "\<exists>s'. run (replicate n env_reverse) s = Inr s' \<and>
     Reverse_Power_Counter s' = Reverse_Power_Counter s + int n \<and>
     (0 < n \<longrightarrow> Mode s' = ''On'' \<and>
        (Reverse_Power_Alarm s' \<longleftrightarrow> Reverse_Power_Alarm s \<or> 10 \<le> Reverse_Power_Counter s + int n))"
proof (induction n arbitrary: s)
  case 0
  then show ?case by simp
next
  case (Suc n)
  obtain s1 where s1: "tick env_reverse s = Inr s1"
    using tick_healthy [OF healthy_envs(4)] by blast
  have m1: "Mode s1 = ''On''"
    by (rule tick_on_alone [OF s1]) (simp_all add: env_reverse_def env_on_def env0_def)
  have d: "Reverse_Power_Counter s1 = Reverse_Power_Counter s + 1"
    "Reverse_Power_Alarm s1 \<longleftrightarrow> Reverse_Power_Alarm s \<or> 10 \<le> Reverse_Power_Counter s + 1"
    by (rule tick_detected [OF s1, of "- 8"];
        simp add: m1 env_reverse_def env_on_def env0_def round1_examples
          REVERSE_POWER_CURRENT_THRESHOLD_def)+
  from Suc [of s1] obtain s' where
    r: "run (replicate n env_reverse) s1 = Inr s'" and
    c: "Reverse_Power_Counter s' = Reverse_Power_Counter s1 + int n" and
    a: "0 < n \<longrightarrow> Mode s' = ''On'' \<and>
        (Reverse_Power_Alarm s' \<longleftrightarrow> Reverse_Power_Alarm s1 \<or> 10 \<le> Reverse_Power_Counter s1 + int n)"
    by blast
  have "run (replicate (Suc n) env_reverse) s = Inr s'"
    using s1 r by simp
  moreover have "Reverse_Power_Counter s' = Reverse_Power_Counter s + int (Suc n)"
    using c d by simp
  moreover have "Mode s' = ''On'' \<and>
        (Reverse_Power_Alarm s' \<longleftrightarrow> Reverse_Power_Alarm s \<or> 10 \<le> Reverse_Power_Counter s + int (Suc n))"
  proof (cases "n = 0")
    case True
    with r m1 d show ?thesis by simp
  next
    case False
    with a d show ?thesis by auto
  qed
  ultimately show ?case by blast
qed

lemma run_env_on:
  "\<exists>s'. run (replicate n env_on) s = Inr s' \<and>
     Reverse_Power_Counter s' = max (if n = 0 then Reverse_Power_Counter s else 0) (Reverse_Power_Counter s - int n) \<and>
     (0 < n \<longrightarrow> Mode s' = ''On'')"
proof (induction n arbitrary: s)
  case 0
  then show ?case by simp
next
  case (Suc n)
  obtain s1 where s1: "tick env_on s = Inr s1"
    using tick_healthy [OF healthy_envs(3)] by blast
  have m1: "Mode s1 = ''On''"
    by (rule tick_on_alone [OF s1]) (simp_all add: env_on_def env0_def)
  have d: "Reverse_Power_Counter s1 = max 0 (Reverse_Power_Counter s - 1)"
    by (rule tick_not_detected [OF s1, of 2];
        simp add: m1 env_on_def env0_def round1_examples REVERSE_POWER_CURRENT_THRESHOLD_def)
  from Suc [of s1] obtain s' where
    r: "run (replicate n env_on) s1 = Inr s'" and
    c: "Reverse_Power_Counter s' =
          max (if n = 0 then Reverse_Power_Counter s1 else 0) (Reverse_Power_Counter s1 - int n)" and
    a: "0 < n \<longrightarrow> Mode s' = ''On''"
    by blast
  have "run (replicate (Suc n) env_on) s = Inr s'"
    using s1 r by simp
  moreover have "Reverse_Power_Counter s' = max 0 (Reverse_Power_Counter s - int (Suc n))"
    using c d by (simp split: if_splits)
  moreover have "Mode s' = ''On''"
    using a r m1 by (cases "n = 0") simp_all
  ultimately show ?case by simp
qed

section \<open>The inverter switch command (C1, C4, C10)\<close>

text \<open>
  Claim C1, with its last condition as the source has it. \<open>set_inverter_switch_mode\<close> calls
  \<open>set_dbus_value\<close> for the inverter switch mode exactly when the target differs from
  the confirmed switch mode, both battery limits are nonzero (contactors closed), the
  settle delay is 0 and strictly more than 5 time units lie between the clock and the
  time of the last command. When it does, the request carries the target, the second
  reading of the clock becomes the time of the last command, and the bus receives the
  write if the item is imported and the write does not raise; when it does not, that
  time and the writes received by the bus are unchanged.

  The same holds of a whole tick that returns: the tick adds an inverter request exactly
  when, on the values read in that tick, the target differs from the confirmed switch
  mode and both limits are nonzero, and, on the state the tick started from, the settle
  delay is 0 and more than 5 time units have passed since the last command.
\<close>

theorem C1_inverter_command_gate:
  "(set_requests (set_inverter_switch_mode e s) \<noteq> set_requests s \<longleftrightarrow>
      Inverter_Switch_Mode_Target s \<noteq> Some (Inverter_Switch_Mode s) \<and>
      Battery_Charge_Limit s \<noteq> 0 \<and> Battery_Discharge_Limit s \<noteq> 0 \<and>
      inverter_delay s = 0 \<and>
      clock_check e - inverter_switch_mode_update_time s > 5) \<and>
   (set_requests (set_inverter_switch_mode e s) \<noteq> set_requests s \<longrightarrow>
      set_requests (set_inverter_switch_mode e s) =
        set_requests s @ [(inverter_switch_mode, Inverter_Switch_Mode_Target s)] \<and>
      inverter_switch_mode_update_time (set_inverter_switch_mode e s) = clock_record e) \<and>
   (set_requests (set_inverter_switch_mode e s) \<noteq> set_requests s \<and>
      dbus_items s inverter_switch_mode = Some Item \<and> \<not> set_fails e inverter_switch_mode \<longrightarrow>
      bus_writes (set_inverter_switch_mode e s) =
        bus_writes s @ [(inverter_switch_mode, Inverter_Switch_Mode_Target s)]) \<and>
   (set_requests (set_inverter_switch_mode e s) = set_requests s \<longrightarrow>
      inverter_switch_mode_update_time (set_inverter_switch_mode e s) =
        inverter_switch_mode_update_time s \<and>
      bus_writes (set_inverter_switch_mode e s) = bus_writes s) \<and>
   (tick e t = Inr t' \<longrightarrow>
     ([r\<leftarrow>set_requests t'. fst r = inverter_switch_mode] \<noteq>
          [r\<leftarrow>set_requests t. fst r = inverter_switch_mode] \<longleftrightarrow>
        Inverter_Switch_Mode_Target t' \<noteq> Some (Inverter_Switch_Mode t') \<and>
        Battery_Charge_Limit t' \<noteq> 0 \<and> Battery_Discharge_Limit t' \<noteq> 0 \<and>
        inverter_delay t = 0 \<and>
        clock_check e - inverter_switch_mode_update_time t > 5) \<and>
     ([r\<leftarrow>set_requests t'. fst r = inverter_switch_mode] \<noteq>
          [r\<leftarrow>set_requests t. fst r = inverter_switch_mode] \<longrightarrow>
        [r\<leftarrow>set_requests t'. fst r = inverter_switch_mode] =
          [r\<leftarrow>set_requests t. fst r = inverter_switch_mode] @
            [(inverter_switch_mode, Inverter_Switch_Mode_Target t')] \<and>
        inverter_switch_mode_update_time t' = clock_record e) \<and>
     ([r\<leftarrow>set_requests t'. fst r = inverter_switch_mode] =
          [r\<leftarrow>set_requests t. fst r = inverter_switch_mode] \<longrightarrow>
        inverter_switch_mode_update_time t' = inverter_switch_mode_update_time t))"
proof -
  have call: "(set_requests (set_inverter_switch_mode e s) \<noteq> set_requests s \<longleftrightarrow>
      Inverter_Switch_Mode_Target s \<noteq> Some (Inverter_Switch_Mode s) \<and>
      Battery_Charge_Limit s \<noteq> 0 \<and> Battery_Discharge_Limit s \<noteq> 0 \<and>
      inverter_delay s = 0 \<and>
      clock_check e - inverter_switch_mode_update_time s > 5) \<and>
   (set_requests (set_inverter_switch_mode e s) \<noteq> set_requests s \<longrightarrow>
      set_requests (set_inverter_switch_mode e s) =
        set_requests s @ [(inverter_switch_mode, Inverter_Switch_Mode_Target s)] \<and>
      inverter_switch_mode_update_time (set_inverter_switch_mode e s) = clock_record e) \<and>
   (set_requests (set_inverter_switch_mode e s) \<noteq> set_requests s \<and>
      dbus_items s inverter_switch_mode = Some Item \<and> \<not> set_fails e inverter_switch_mode \<longrightarrow>
      bus_writes (set_inverter_switch_mode e s) =
        bus_writes s @ [(inverter_switch_mode, Inverter_Switch_Mode_Target s)]) \<and>
   (set_requests (set_inverter_switch_mode e s) = set_requests s \<longrightarrow>
      inverter_switch_mode_update_time (set_inverter_switch_mode e s) =
        inverter_switch_mode_update_time s \<and>
      bus_writes (set_inverter_switch_mode e s) = bus_writes s)"
    by (simp add: set_inverter_switch_mode_def Battery_Contactors_Closed_def Let_def
        set_dbus_value_requests set_dbus_value_frame set_dbus_value_writes
        Inverter_Switch_Mode_Target_def)
  from call tick_gate [of e t t'] show ?thesis by blast
qed

theorem C1_inverter_command_gate_witness:
  "Inverter_Switch_Mode_Target s_pending \<noteq> Some (Inverter_Switch_Mode s_pending) \<and>
   Battery_Charge_Limit s_pending \<noteq> 0 \<and> Battery_Discharge_Limit s_pending \<noteq> 0 \<and>
   inverter_delay s_pending = 0 \<and>
   clock_check env0 - inverter_switch_mode_update_time s_pending > 5 \<and>
   set_requests (set_inverter_switch_mode env0 s_pending) = [(inverter_switch_mode, Some 3)] \<and>
   bus_writes (set_inverter_switch_mode env0 s_pending) = [(inverter_switch_mode, Some 3)] \<and>
   inverter_switch_mode_update_time (set_inverter_switch_mode env0 s_pending) = 1000 \<and>
   set_requests (set_inverter_switch_mode env_at5 s_pending) = [] \<and>
   inverter_switch_mode_update_time (set_inverter_switch_mode env_at5 s_pending) = 990"
  using C1_inverter_command_gate [of env0 s_pending] C1_inverter_command_gate [of env_at5 s_pending]
  by (simp add: s_pending_def construct_fields construct_items dbus_items_spec_def env0_def
      env_at5_def target_defs)

text \<open>
  With "at least 5" in place of "more than 5" the equivalence fails: in \<open>s_pending\<close> the
  last command was sent at 990, at clock 995 exactly 5 units have elapsed, every other
  gate holds, and no command is sent.
\<close>

theorem C1_counterexample:
  "\<not> (set_requests (set_inverter_switch_mode env_at5 s_pending) \<noteq> set_requests s_pending \<longleftrightarrow>
      Inverter_Switch_Mode_Target s_pending \<noteq> Some (Inverter_Switch_Mode s_pending) \<and>
      Battery_Charge_Limit s_pending \<noteq> 0 \<and> Battery_Discharge_Limit s_pending \<noteq> 0 \<and>
      inverter_delay s_pending = 0 \<and>
      clock_check env_at5 - inverter_switch_mode_update_time s_pending \<ge> 5)"
  by (simp add: set_inverter_switch_mode_def Battery_Contactors_Closed_def Let_def target_defs
      s_pending_def construct_fields env_at5_def env0_def)

text \<open>
  Claim C4, restricted to the ticks on which a command is pending. When the target
  differs from the confirmed switch mode and a battery limit is zero (contactors open),
  the settle delay becomes 10 and nothing is sent. When the target differs and the
  contactors are closed, the delay becomes \<open>max 0 (delay - 1)\<close>, and a command is sent
  only if the delay was already 0. When the target equals the confirmed switch mode,
  \<open>set_inverter_switch_mode\<close> changes nothing, so the delay keeps its value. The same
  three cases hold of a whole tick that returns, with target, confirmed mode and limits
  as read in that tick and the delay counted from the state the tick started from.
\<close>

theorem C4_settle_delay:
  "(Inverter_Switch_Mode_Target s \<noteq> Some (Inverter_Switch_Mode s) \<and>
      (Battery_Charge_Limit s = 0 \<or> Battery_Discharge_Limit s = 0) \<longrightarrow>
        inverter_delay (set_inverter_switch_mode e s) = 10 \<and>
        set_requests (set_inverter_switch_mode e s) = set_requests s) \<and>
   (Inverter_Switch_Mode_Target s \<noteq> Some (Inverter_Switch_Mode s) \<and>
      Battery_Charge_Limit s \<noteq> 0 \<and> Battery_Discharge_Limit s \<noteq> 0 \<longrightarrow>
        inverter_delay (set_inverter_switch_mode e s) = max 0 (inverter_delay s - 1) \<and>
        (set_requests (set_inverter_switch_mode e s) \<noteq> set_requests s \<longrightarrow> inverter_delay s = 0)) \<and>
   (Inverter_Switch_Mode_Target s = Some (Inverter_Switch_Mode s) \<longrightarrow>
        set_inverter_switch_mode e s = s) \<and>
   (tick e t = Inr t' \<longrightarrow>
     (Inverter_Switch_Mode_Target t' \<noteq> Some (Inverter_Switch_Mode t') \<and>
        (Battery_Charge_Limit t' = 0 \<or> Battery_Discharge_Limit t' = 0) \<longrightarrow>
          inverter_delay t' = 10) \<and>
     (Inverter_Switch_Mode_Target t' \<noteq> Some (Inverter_Switch_Mode t') \<and>
        Battery_Charge_Limit t' \<noteq> 0 \<and> Battery_Discharge_Limit t' \<noteq> 0 \<longrightarrow>
          inverter_delay t' = max 0 (inverter_delay t - 1)) \<and>
     (Inverter_Switch_Mode_Target t' = Some (Inverter_Switch_Mode t') \<longrightarrow>
          inverter_delay t' = inverter_delay t))"
proof -
  have call: "(Inverter_Switch_Mode_Target s \<noteq> Some (Inverter_Switch_Mode s) \<and>
      (Battery_Charge_Limit s = 0 \<or> Battery_Discharge_Limit s = 0) \<longrightarrow>
        inverter_delay (set_inverter_switch_mode e s) = 10 \<and>
        set_requests (set_inverter_switch_mode e s) = set_requests s) \<and>
   (Inverter_Switch_Mode_Target s \<noteq> Some (Inverter_Switch_Mode s) \<and>
      Battery_Charge_Limit s \<noteq> 0 \<and> Battery_Discharge_Limit s \<noteq> 0 \<longrightarrow>
        inverter_delay (set_inverter_switch_mode e s) = max 0 (inverter_delay s - 1) \<and>
        (set_requests (set_inverter_switch_mode e s) \<noteq> set_requests s \<longrightarrow> inverter_delay s = 0)) \<and>
   (Inverter_Switch_Mode_Target s = Some (Inverter_Switch_Mode s) \<longrightarrow>
        set_inverter_switch_mode e s = s)"
    by (simp add: set_inverter_switch_mode_def Battery_Contactors_Closed_def Let_def
        set_dbus_value_requests set_dbus_value_frame Inverter_Switch_Mode_Target_def)
  from call tick_delay [of e t t'] show ?thesis by blast
qed

theorem C4_settle_delay_witness:
  "Inverter_Switch_Mode_Target s_open_pending \<noteq> Some (Inverter_Switch_Mode s_open_pending) \<and>
   Battery_Charge_Limit s_open_pending = 0 \<and>
   inverter_delay s_open_pending = 3 \<and>
   inverter_delay (set_inverter_switch_mode env0 s_open_pending) = 10 \<and>
   Inverter_Switch_Mode_Target s_settling \<noteq> Some (Inverter_Switch_Mode s_settling) \<and>
   Battery_Charge_Limit s_settling \<noteq> 0 \<and> Battery_Discharge_Limit s_settling \<noteq> 0 \<and>
   inverter_delay s_settling = 3 \<and>
   inverter_delay (set_inverter_switch_mode env0 s_settling) = 2 \<and>
   set_requests (set_inverter_switch_mode env0 s_settling) = set_requests s_settling"
  using C4_settle_delay [of s_open_pending env0] C4_settle_delay [of s_settling env0]
  by (auto simp add: s_open_pending_def s_settling_def s_pending_def construct_fields target_defs)

text \<open>
  Without the restriction the first half fails: in \<open>s_open_idle\<close> the contactors are
  open, target and confirmed switch mode are both Off, and the delay stays at 3.
\<close>

theorem C4_counterexample:
  "(Battery_Charge_Limit s_open_idle = 0 \<or> Battery_Discharge_Limit s_open_idle = 0) \<and>
   inverter_delay (set_inverter_switch_mode env0 s_open_idle) \<noteq> 10"
  by (simp add: set_inverter_switch_mode_def target_defs s_open_idle_def construct_fields)

text \<open>
  Claim C10. When the read of the inverter switch mode fails (no item under the key, a
  \<open>DBusException\<close>, or a value that unwraps to \<open>None\<close>), \<open>update_inverter_switch_mode\<close>
  sets the confirmed switch mode to 0, which is none of the four command codes, and
  clears \<open>Inverter_Connected\<close>. The target then differs from the confirmed mode, so
  \<open>set_inverter_switch_mode\<close> requests a command exactly when the contactors are closed,
  the settle delay is 0 and more than 5 time units have passed since the last request;
  each request records the clock, which spaces the requests by the rate limit.
\<close>

theorem C10_link_down_keeps_commanding:
  "dbus_items s inverter_switch_mode \<noteq> Some Item \<or> mode_reading e = DBusException \<or>
     mode_reading e = Value None \<Longrightarrow>
   Inverter_Switch_Mode (update_inverter_switch_mode e s) = 0 \<and>
   Inverter_Switch_Mode (update_inverter_switch_mode e s) \<notin>
     {INV_SWITCH_CHARGE_ONLY, INV_SWITCH_INVERT_ONLY, INV_SWITCH_ON, INV_SWITCH_OFF} \<and>
   \<not> Inverter_Connected (update_inverter_switch_mode e s) \<and>
   Inverter_Switch_Mode_Target (update_inverter_switch_mode e s) \<noteq>
     Some (Inverter_Switch_Mode (update_inverter_switch_mode e s)) \<and>
   (set_requests (set_inverter_switch_mode e (update_inverter_switch_mode e s)) \<noteq>
      set_requests (update_inverter_switch_mode e s) \<longleftrightarrow>
        Battery_Charge_Limit (update_inverter_switch_mode e s) \<noteq> 0 \<and>
        Battery_Discharge_Limit (update_inverter_switch_mode e s) \<noteq> 0 \<and>
        inverter_delay (update_inverter_switch_mode e s) = 0 \<and>
        clock_check e - inverter_switch_mode_update_time (update_inverter_switch_mode e s) > 5) \<and>
   (set_requests (set_inverter_switch_mode e (update_inverter_switch_mode e s)) \<noteq>
      set_requests (update_inverter_switch_mode e s) \<longrightarrow>
        set_requests (set_inverter_switch_mode e (update_inverter_switch_mode e s)) =
          set_requests (update_inverter_switch_mode e s) @
            [(inverter_switch_mode, Inverter_Switch_Mode_Target (update_inverter_switch_mode e s))] \<and>
        inverter_switch_mode_update_time (set_inverter_switch_mode e (update_inverter_switch_mode e s)) =
          clock_record e)"
proof -
  assume a: "dbus_items s inverter_switch_mode \<noteq> Some Item \<or> mode_reading e = DBusException \<or>
     mode_reading e = Value None"
  let ?s1 = "update_inverter_switch_mode e s"
  note z = update_inverter_switch_mode_failed [OF a]
  have t: "Inverter_Switch_Mode_Target ?s1 \<noteq> Some (Inverter_Switch_Mode ?s1)"
    by (simp add: z target_not_0)
  have n: "Inverter_Switch_Mode ?s1 \<notin>
     {INV_SWITCH_CHARGE_ONLY, INV_SWITCH_INVERT_ONLY, INV_SWITCH_ON, INV_SWITCH_OFF}"
    by (simp add: z INV_SWITCH_OFF_def INV_SWITCH_ON_def INV_SWITCH_INVERT_ONLY_def
        INV_SWITCH_CHARGE_ONLY_def)
  have g: "(set_requests (set_inverter_switch_mode e ?s1) \<noteq> set_requests ?s1 \<longleftrightarrow>
        Battery_Charge_Limit ?s1 \<noteq> 0 \<and> Battery_Discharge_Limit ?s1 \<noteq> 0 \<and>
        inverter_delay ?s1 = 0 \<and> clock_check e - inverter_switch_mode_update_time ?s1 > 5) \<and>
     (set_requests (set_inverter_switch_mode e ?s1) \<noteq> set_requests ?s1 \<longrightarrow>
        set_requests (set_inverter_switch_mode e ?s1) =
          set_requests ?s1 @ [(inverter_switch_mode, Inverter_Switch_Mode_Target ?s1)] \<and>
        inverter_switch_mode_update_time (set_inverter_switch_mode e ?s1) = clock_record e)"
    using t
    by (simp add: set_inverter_switch_mode_def Battery_Contactors_Closed_def Let_def
        set_dbus_value_requests set_dbus_value_frame Inverter_Switch_Mode_Target_def)
  from z n t g show ?thesis by blast
qed

theorem C10_link_down_keeps_commanding_witness:
  "mode_reading env_mode_down = DBusException \<and>
   Inverter_Switch_Mode (update_inverter_switch_mode env_mode_down s_pending) = 0 \<and>
   set_requests (set_inverter_switch_mode env_mode_down
       (update_inverter_switch_mode env_mode_down s_pending)) = [(inverter_switch_mode, Some 3)] \<and>
   inverter_switch_mode_update_time (set_inverter_switch_mode env_mode_down
       (update_inverter_switch_mode env_mode_down s_pending)) = 1000"
proof -
  have a: "mode_reading env_mode_down = DBusException"
    by (simp add: env_mode_down_def)
  have f: "Battery_Charge_Limit (update_inverter_switch_mode env_mode_down s_pending) = 100"
    "Battery_Discharge_Limit (update_inverter_switch_mode env_mode_down s_pending) = 100"
    "inverter_delay (update_inverter_switch_mode env_mode_down s_pending) = 0"
    "inverter_switch_mode_update_time (update_inverter_switch_mode env_mode_down s_pending) = 990"
    "set_requests (update_inverter_switch_mode env_mode_down s_pending) = []"
    "Inverter_Switch_Mode_Target (update_inverter_switch_mode env_mode_down s_pending) = Some 3"
    by (simp_all add: update_inverter_switch_mode_def get_dbus_value_def pop_item_def s_pending_def
        construct_fields construct_items dbus_items_spec_def target_defs env_mode_down_def env0_def)
  have c: "clock_check env_mode_down = 1000" "clock_record env_mode_down = 1000"
    by (simp_all add: env_mode_down_def env0_def)
  from C10_link_down_keeps_commanding [of s_pending env_mode_down] a
  show ?thesis by (simp add: f c)
qed

section \<open>The reverse-power detector (C2, C3)\<close>

text \<open>
  Claim C2 says that the counter saturates at the threshold of 10. The source computes
  the \<open>max\<close> of threshold and counter and drops it, so the counter is not capped: after
  eleven ticks of a fresh controller with On held and 8 A flowing backwards, the counter is 11.
\<close>

theorem C2_counter_exceeds_threshold:
  "\<not> isl (run (replicate 11 env_reverse) (construct env_reverse)) \<and>
   Reverse_Power_Counter (projr (run (replicate 11 env_reverse) (construct env_reverse))) = 11 \<and>
   of_int (Reverse_Power_Counter (projr (run (replicate 11 env_reverse) (construct env_reverse)))) >
     REVERSE_POWER_COUNTER_THRESHOLD"
proof -
  from run_env_reverse [of 11 "construct env_reverse"] obtain s' where
    "run (replicate 11 env_reverse) (construct env_reverse) = Inr s'"
    "Reverse_Power_Counter s' = Reverse_Power_Counter (construct env_reverse) + 11"
    by auto
  then show ?thesis
    by (simp add: construct_fields REVERSE_POWER_COUNTER_THRESHOLD_def TIMESTEP_def)
qed

text \<open>
  Claim C3 says that the alarm is cleared on a tick with mode Off and counter 0. \<open>run\<close>
  calls \<open>check_reverse_power\<close> only in the modes On and ChargeOnly, and the branch that
  clears the alarm asks for mode Off, so inside the loop the alarm is never cleared
  (lemma \<open>run_alarm_latched\<close>). After \<open>scenario_alarm\<close> on a fresh controller the mode is Off,
  the counter is 0 and the alarm is set; one more idle tick leaves the alarm set.
\<close>

theorem C3_alarm_not_cleared_in_off:
  "\<not> isl (run scenario_alarm (construct env0)) \<and>
   \<not> isl (tick env0 (projr (run scenario_alarm (construct env0)))) \<and>
   Mode (projr (run scenario_alarm (construct env0))) = ''Off'' \<and>
   Reverse_Power_Counter (projr (run scenario_alarm (construct env0))) = 0 \<and>
   Reverse_Power_Alarm (projr (run scenario_alarm (construct env0))) \<and>
   Reverse_Power_Alarm (projr (tick env0 (projr (run scenario_alarm (construct env0)))))"
proof -
  from run_env_reverse [of 10 "construct env0"] obtain sA where
    rA: "run (replicate 10 env_reverse) (construct env0) = Inr sA" and
    cA: "Reverse_Power_Counter sA = 10" and aA: "Reverse_Power_Alarm sA"
    by (auto simp add: construct_fields)
  from run_env_on [of 10 sA] obtain sB where
    rB: "run (replicate 10 env_on) sA = Inr sB" and
    cB: "Reverse_Power_Counter sB = 0"
    using cA by auto
  have aB: "Reverse_Power_Alarm sB" by (rule run_alarm_latched [OF rB aA])
  obtain sC where sC: "tick env_off sB = Inr sC"
    using tick_healthy [OF healthy_envs(2)] by blast
  have mC: "Mode sC = ''Off''"
    by (rule tick_off_alone [OF sC]) (simp_all add: env_off_def env0_def)
  have cC: "Reverse_Power_Counter sC = 0" and aC: "Reverse_Power_Alarm sC"
    using tick_reverse_power_off [OF sC] mC cB aB by simp_all
  obtain sD where sD: "tick env0 sC = Inr sD"
    using tick_healthy [OF healthy_envs(1)] by blast
  have mD: "Mode sD = ''Off''"
    using tick_no_button [OF sD] mC by (simp add: env0_def)
  have cD: "Reverse_Power_Counter sD = 0" and aD: "Reverse_Power_Alarm sD"
    using tick_reverse_power_off [OF sD] mD cC aC by simp_all
  obtain sE where sE: "tick env0 sD = Inr sE"
    using tick_healthy [OF healthy_envs(1)] by blast
  have aE: "Reverse_Power_Alarm sE" by (rule tick_alarm_latched [OF sE aD])
  have "run scenario_alarm (construct env0) = Inr sD"
    by (simp add: scenario_alarm_def run_append rA rB sC sD)
  then show ?thesis
    by (simp add: mD cD aD sE aE)
qed

section \<open>Failed reads (C5)\<close>

text \<open>
  Claim C5 says that a failed telemetry read does not raise. When the charge limit
  cannot be imported, or its read raises \<open>DBusException\<close>, \<open>update_battery_limits\<close>
  passes \<open>None\<close> to \<open>round\<close> and the first tick of a fresh controller ends in \<open>TypeError\<close>.
  When the read of the AC output current raises \<open>DBusException\<close> in mode On, the item
  is popped twice and the tick ends in \<open>KeyError\<close>.
\<close>

theorem C5_failed_read_raises:
  "tick env_charge_down (construct env_charge_down) = Inl TypeError \<and>
   tick env_charge_raises (construct env_charge_raises) = Inl TypeError \<and>
   tick env_ac_raises (construct env_ac_raises) = Inl KeyError"
proof -
  have "tick env_charge_down (construct env_charge_down) = Inl TypeError"
    by (rule tick_TypeError) (simp add: env_charge_down_def construct_items dbus_items_spec_def)
  moreover have "tick env_charge_raises (construct env_charge_raises) = Inl TypeError"
    by (rule tick_TypeError) (simp add: env_charge_raises_def)
  moreover have "tick env_ac_raises (construct env_ac_raises) = Inl KeyError"
    by (rule tick_KeyError) (simp_all add: env_ac_raises_def env_on_def env0_def)
  ultimately show ?thesis by simp
qed

section \<open>The mode state machine (C6, C7, C8)\<close>

text \<open>
  Claim C6. \<open>update_mode\<close> sets the mode to Off, On or ChargeOnly when that button alone
  is pressed. On any other combination (no button, or several) a mode that is set keeps
  its value, and the empty mode of \<open>__init__\<close> becomes the default Off. The mode after
  a tick is the one \<open>update_mode\<close> computes from the buttons of that tick. So the first
  tick of a fresh controller ends in Off unless one button alone is pressed, after one or
  more ticks the mode is Off, On or ChargeOnly, and from then on a tick changes the mode
  only if exactly one button is pressed alone.
\<close>

theorem C6_mode_transitions:
  "(Off_Button_Pressed s \<and> \<not> On_Button_Pressed s \<and> \<not> Charge_Button_Pressed s \<longrightarrow>
      Mode (update_mode s) = ''Off'') \<and>
   (On_Button_Pressed s \<and> \<not> Off_Button_Pressed s \<and> \<not> Charge_Button_Pressed s \<longrightarrow>
      Mode (update_mode s) = ''On'') \<and>
   (Charge_Button_Pressed s \<and> \<not> Off_Button_Pressed s \<and> \<not> On_Button_Pressed s \<longrightarrow>
      Mode (update_mode s) = ''ChargeOnly'') \<and>
   (\<not> (Off_Button_Pressed s \<and> \<not> On_Button_Pressed s \<and> \<not> Charge_Button_Pressed s) \<and>
    \<not> (On_Button_Pressed s \<and> \<not> Off_Button_Pressed s \<and> \<not> Charge_Button_Pressed s) \<and>
    \<not> (Charge_Button_Pressed s \<and> \<not> Off_Button_Pressed s \<and> \<not> On_Button_Pressed s) \<longrightarrow>
      Mode (update_mode s) = (if Mode s = '''' then ''Off'' else Mode s)) \<and>
   (tick e t = Inr t' \<longrightarrow> Mode t' = Mode (update_mode (update_inputs e t))) \<and>
   (run es (construct e0) = Inr s' \<and> es \<noteq> [] \<longrightarrow> Mode s' \<in> {''Off'', ''On'', ''ChargeOnly''}) \<and>
   (Mode s \<noteq> '''' \<and>
    \<not> (Off_Button_Pressed s \<and> \<not> On_Button_Pressed s \<and> \<not> Charge_Button_Pressed s) \<and>
    \<not> (On_Button_Pressed s \<and> \<not> Off_Button_Pressed s \<and> \<not> Charge_Button_Pressed s) \<and>
    \<not> (Charge_Button_Pressed s \<and> \<not> Off_Button_Pressed s \<and> \<not> On_Button_Pressed s) \<longrightarrow>
      Mode (update_mode s) = Mode s) \<and>
   (run es (construct e0) = Inr s' \<and> es \<noteq> [] \<and> tick e1 s' = Inr s'' \<and> Mode s'' \<noteq> Mode s' \<longrightarrow>
      (Off_Button (gpio e1) \<and> \<not> On_Button (gpio e1) \<and> \<not> Charge_Button (gpio e1)) \<or>
      (On_Button (gpio e1) \<and> \<not> Off_Button (gpio e1) \<and> \<not> Charge_Button (gpio e1)) \<or>
      (Charge_Button (gpio e1) \<and> \<not> Off_Button (gpio e1) \<and> \<not> On_Button (gpio e1))) \<and>
   (tick e1 (construct e0) = Inr s1 \<and>
    \<not> (Off_Button (gpio e1) \<and> \<not> On_Button (gpio e1) \<and> \<not> Charge_Button (gpio e1)) \<and>
    \<not> (On_Button (gpio e1) \<and> \<not> Off_Button (gpio e1) \<and> \<not> Charge_Button (gpio e1)) \<and>
    \<not> (Charge_Button (gpio e1) \<and> \<not> Off_Button (gpio e1) \<and> \<not> On_Button (gpio e1)) \<longrightarrow>
      Mode s1 = ''Off'')"
proof -
  have step: "(Off_Button_Pressed s \<and> \<not> On_Button_Pressed s \<and> \<not> Charge_Button_Pressed s \<longrightarrow>
      Mode (update_mode s) = ''Off'') \<and>
   (On_Button_Pressed s \<and> \<not> Off_Button_Pressed s \<and> \<not> Charge_Button_Pressed s \<longrightarrow>
      Mode (update_mode s) = ''On'') \<and>
   (Charge_Button_Pressed s \<and> \<not> Off_Button_Pressed s \<and> \<not> On_Button_Pressed s \<longrightarrow>
      Mode (update_mode s) = ''ChargeOnly'') \<and>
   (\<not> (Off_Button_Pressed s \<and> \<not> On_Button_Pressed s \<and> \<not> Charge_Button_Pressed s) \<and>
    \<not> (On_Button_Pressed s \<and> \<not> Off_Button_Pressed s \<and> \<not> Charge_Button_Pressed s) \<and>
    \<not> (Charge_Button_Pressed s \<and> \<not> Off_Button_Pressed s \<and> \<not> On_Button_Pressed s) \<longrightarrow>
      Mode (update_mode s) = (if Mode s = '''' then ''Off'' else Mode s))"
    by (auto simp add: update_mode_def Let_def button_defs DEFAULT_MODE_def)
  have t: "tick e t = Inr t' \<longrightarrow> Mode t' = Mode (update_mode (update_inputs e t))"
    using tick_Mode(1) by blast
  have r: "run es (construct e0) = Inr s' \<and> es \<noteq> [] \<longrightarrow> Mode s' \<in> {''Off'', ''On'', ''ChargeOnly''}"
    using run_Mode_valid [of es "construct e0" s'] by (simp add: construct_fields)
  have keep: "Mode s \<noteq> '''' \<and>
    \<not> (Off_Button_Pressed s \<and> \<not> On_Button_Pressed s \<and> \<not> Charge_Button_Pressed s) \<and>
    \<not> (On_Button_Pressed s \<and> \<not> Off_Button_Pressed s \<and> \<not> Charge_Button_Pressed s) \<and>
    \<not> (Charge_Button_Pressed s \<and> \<not> Off_Button_Pressed s \<and> \<not> On_Button_Pressed s) \<longrightarrow>
      Mode (update_mode s) = Mode s"
    using step by simp
  have only: "run es (construct e0) = Inr s' \<and> es \<noteq> [] \<and> tick e1 s' = Inr s'' \<and> Mode s'' \<noteq> Mode s' \<longrightarrow>
      (Off_Button (gpio e1) \<and> \<not> On_Button (gpio e1) \<and> \<not> Charge_Button (gpio e1)) \<or>
      (On_Button (gpio e1) \<and> \<not> Off_Button (gpio e1) \<and> \<not> Charge_Button (gpio e1)) \<or>
      (Charge_Button (gpio e1) \<and> \<not> Off_Button (gpio e1) \<and> \<not> On_Button (gpio e1))"
  proof (intro impI, elim conjE)
    assume a: "run es (construct e0) = Inr s'" "es \<noteq> []" "tick e1 s' = Inr s''" "Mode s'' \<noteq> Mode s'"
    from a(1,2) r have "Mode s' \<noteq> ''''" by auto
    with a(4) show "(Off_Button (gpio e1) \<and> \<not> On_Button (gpio e1) \<and> \<not> Charge_Button (gpio e1)) \<or>
      (On_Button (gpio e1) \<and> \<not> Off_Button (gpio e1) \<and> \<not> Charge_Button (gpio e1)) \<or>
      (Charge_Button (gpio e1) \<and> \<not> Off_Button (gpio e1) \<and> \<not> On_Button (gpio e1))"
      unfolding tick_Mode(1) [OF a(3)]
      by (auto simp add: update_mode_def Let_def update_inputs_def button_defs split: if_splits)
  qed
  have first: "tick e1 (construct e0) = Inr s1 \<and>
    \<not> (Off_Button (gpio e1) \<and> \<not> On_Button (gpio e1) \<and> \<not> Charge_Button (gpio e1)) \<and>
    \<not> (On_Button (gpio e1) \<and> \<not> Off_Button (gpio e1) \<and> \<not> Charge_Button (gpio e1)) \<and>
    \<not> (Charge_Button (gpio e1) \<and> \<not> Off_Button (gpio e1) \<and> \<not> On_Button (gpio e1)) \<longrightarrow>
      Mode s1 = ''Off''"
  proof (intro impI, elim conjE)
    assume a: "tick e1 (construct e0) = Inr s1"
      "\<not> (Off_Button (gpio e1) \<and> \<not> On_Button (gpio e1) \<and> \<not> Charge_Button (gpio e1))"
      "\<not> (On_Button (gpio e1) \<and> \<not> Off_Button (gpio e1) \<and> \<not> Charge_Button (gpio e1))"
      "\<not> (Charge_Button (gpio e1) \<and> \<not> Off_Button (gpio e1) \<and> \<not> On_Button (gpio e1))"
    from a(2-4) show "Mode s1 = ''Off''"
      unfolding tick_Mode(1) [OF a(1)]
      by (auto simp add: update_mode_def Let_def update_inputs_def button_defs DEFAULT_MODE_def
          construct_fields)
  qed
  from step t r keep only first show ?thesis by blast
qed

theorem C6_mode_transitions_witness:
  "On_Button_Pressed (update_inputs env_on (construct env_on)) \<and>
   \<not> Off_Button_Pressed (update_inputs env_on (construct env_on)) \<and>
   \<not> Charge_Button_Pressed (update_inputs env_on (construct env_on)) \<and>
   Mode (update_mode (update_inputs env_on (construct env_on))) = ''On'' \<and>
   \<not> isl (run [env_on] (construct env_on)) \<and>
   Mode (projr (run [env_on] (construct env_on))) \<in> {''Off'', ''On'', ''ChargeOnly''} \<and>
   \<not> isl (tick env0 (construct env0)) \<and>
   Mode (projr (tick env0 (construct env0))) = ''Off''"
proof -
  obtain s0 where s0: "tick env0 (construct env0) = Inr s0"
    using tick_healthy [OF healthy_envs(1)] by blast
  have n: "\<not> Off_Button (gpio env0)" "\<not> On_Button (gpio env0)" "\<not> Charge_Button (gpio env0)"
    by (simp_all add: env0_def)
  obtain s1 where s1: "tick env_on (construct env_on) = Inr s1"
    using tick_healthy [OF healthy_envs(3)] by blast
  have b: "On_Button_Pressed (update_inputs env_on (construct env_on))"
    "\<not> Off_Button_Pressed (update_inputs env_on (construct env_on))"
    "\<not> Charge_Button_Pressed (update_inputs env_on (construct env_on))"
    by (simp_all add: button_defs update_inputs_def env_on_def env0_def)
  from C6_mode_transitions [of "update_inputs env_on (construct env_on)" env_on
      "construct env_on" s1 "[env_on]" env_on s1]
    C6_mode_transitions [of _ _ _ _ _ env0 _ env0 _ s0] b s1 s0 n
  show ?thesis by simp
qed

text \<open>
  Claim C7. \<open>update_mode\<close> adds 1 to the hold counter when Off is pressed and sets it to 0
  otherwise; a counter of 10 or more sets \<open>BMS_Disable\<close>; \<open>BMS_Disable\<close> stays set until
  On alone or Charge alone is pressed, which clears it. A tick ends with the counter and
  flag that \<open>update_mode\<close> computes, and ten or more ticks in a row with Off held, from a
  state whose counter is not negative, end with \<open>BMS_Disable\<close> set.
\<close>

theorem C7_off_hold_counter:
  "Off_Button_Pressed_Counter (update_mode s) =
      (if Off_Button_Pressed s then Off_Button_Pressed_Counter s + 1 else 0) \<and>
   (Off_Button_Pressed_Counter (update_mode s) \<ge> 10 \<longrightarrow> BMS_Disable (update_mode s)) \<and>
   (BMS_Disable s \<and>
     \<not> (On_Button_Pressed s \<and> \<not> Off_Button_Pressed s \<and> \<not> Charge_Button_Pressed s) \<and>
     \<not> (Charge_Button_Pressed s \<and> \<not> Off_Button_Pressed s \<and> \<not> On_Button_Pressed s)
       \<longrightarrow> BMS_Disable (update_mode s)) \<and>
   ((On_Button_Pressed s \<and> \<not> Off_Button_Pressed s \<and> \<not> Charge_Button_Pressed s) \<or>
    (Charge_Button_Pressed s \<and> \<not> Off_Button_Pressed s \<and> \<not> On_Button_Pressed s)
       \<longrightarrow> \<not> BMS_Disable (update_mode s)) \<and>
   (tick e t = Inr t' \<longrightarrow>
      Off_Button_Pressed_Counter t' = Off_Button_Pressed_Counter (update_mode (update_inputs e t)) \<and>
      BMS_Disable t' = BMS_Disable (update_mode (update_inputs e t))) \<and>
   (run es u = Inr u' \<and> (\<forall>x\<in>set es. Off_Button (gpio x)) \<and> 10 \<le> length es \<and>
      0 \<le> Off_Button_Pressed_Counter u \<longrightarrow> BMS_Disable u')"
proof -
  have step: "Off_Button_Pressed_Counter (update_mode s) =
      (if Off_Button_Pressed s then Off_Button_Pressed_Counter s + 1 else 0) \<and>
   (Off_Button_Pressed_Counter (update_mode s) \<ge> 10 \<longrightarrow> BMS_Disable (update_mode s)) \<and>
   (BMS_Disable s \<and>
     \<not> (On_Button_Pressed s \<and> \<not> Off_Button_Pressed s \<and> \<not> Charge_Button_Pressed s) \<and>
     \<not> (Charge_Button_Pressed s \<and> \<not> Off_Button_Pressed s \<and> \<not> On_Button_Pressed s)
       \<longrightarrow> BMS_Disable (update_mode s)) \<and>
   ((On_Button_Pressed s \<and> \<not> Off_Button_Pressed s \<and> \<not> Charge_Button_Pressed s) \<or>
    (Charge_Button_Pressed s \<and> \<not> Off_Button_Pressed s \<and> \<not> On_Button_Pressed s)
       \<longrightarrow> \<not> BMS_Disable (update_mode s))"
    by (auto simp add: update_mode_def Let_def button_defs)
  have t: "tick e t = Inr t' \<longrightarrow>
      Off_Button_Pressed_Counter t' = Off_Button_Pressed_Counter (update_mode (update_inputs e t)) \<and>
      BMS_Disable t' = BMS_Disable (update_mode (update_inputs e t))"
    using tick_Mode(2,3) by blast
  have r: "run es u = Inr u' \<and> (\<forall>x\<in>set es. Off_Button (gpio x)) \<and> 10 \<le> length es \<and>
      0 \<le> Off_Button_Pressed_Counter u \<longrightarrow> BMS_Disable u'"
  proof (intro impI, elim conjE)
    assume a: "run es u = Inr u'" "\<forall>x\<in>set es. Off_Button (gpio x)" "10 \<le> length es"
      "0 \<le> Off_Button_Pressed_Counter u"
    from run_off_held [OF a(1,2)] a(3,4) have "10 \<le> Off_Button_Pressed_Counter u'" by simp
    moreover from a(3) have "es \<noteq> []" by auto
    ultimately show "BMS_Disable u'" using run_BMS_Disable [OF a(1)] by simp
  qed
  from step t r show ?thesis by blast
qed

theorem C7_off_hold_counter_witness:
  "\<not> isl (run (replicate 10 env_off) (construct env0)) \<and>
   Off_Button (gpio env_off) \<and>
   10 \<le> length (replicate 10 env_off) \<and> 0 \<le> Off_Button_Pressed_Counter (construct env0) \<and>
   BMS_Disable (projr (run (replicate 10 env_off) (construct env0))) \<and>
   BMS_Disable s_disabled \<and> On_Button_Pressed (update_inputs env_on s_disabled) \<and>
   \<not> Off_Button_Pressed (update_inputs env_on s_disabled) \<and>
   \<not> Charge_Button_Pressed (update_inputs env_on s_disabled) \<and>
   \<not> BMS_Disable (update_mode (update_inputs env_on s_disabled))"
proof -
  obtain u' where u': "run (replicate 10 env_off) (construct env0) = Inr u'"
    using run_healthy [of "replicate 10 env_off" "construct env0"] healthy_envs(2) by auto
  have h: "\<forall>x\<in>set (replicate 10 env_off). Off_Button (gpio x)"
    by (simp add: env_off_def)
  have c: "0 \<le> Off_Button_Pressed_Counter (construct env0)" "BMS_Disable s_disabled"
    by (simp_all add: construct_fields s_disabled_def)
  have b: "On_Button_Pressed (update_inputs env_on s_disabled)"
    "\<not> Off_Button_Pressed (update_inputs env_on s_disabled)"
    "\<not> Charge_Button_Pressed (update_inputs env_on s_disabled)"
    by (simp_all add: button_defs update_inputs_def env_on_def env0_def)
  from C7_off_hold_counter [of "update_inputs env_on s_disabled" env_on "construct env0" u'
      "replicate 10 env_off" "construct env0" u'] u' h c b
  show ?thesis by simp
qed

text \<open>
  Claim C8. The target is \<open>INV_SWITCH_OFF\<close> (4) when the alarm is set; otherwise Off
  maps to 4, On to 3 and ChargeOnly to 1. The dictionary has the entry InvertOnly with
  code 2, and no state reached by \<open>run\<close> from a fresh controller has target 2.
\<close>

theorem C8_switch_mode_target:
  "(Reverse_Power_Alarm s \<longrightarrow> Inverter_Switch_Mode_Target s = Some INV_SWITCH_OFF) \<and>
   (\<not> Reverse_Power_Alarm s \<longrightarrow>
      (Mode s = ''Off'' \<longrightarrow> Inverter_Switch_Mode_Target s = Some INV_SWITCH_OFF) \<and>
      (Mode s = ''On'' \<longrightarrow> Inverter_Switch_Mode_Target s = Some INV_SWITCH_ON) \<and>
      (Mode s = ''ChargeOnly'' \<longrightarrow> Inverter_Switch_Mode_Target s = Some INV_SWITCH_CHARGE_ONLY)) \<and>
   INV_SWITCH_OFF = 4 \<and> INV_SWITCH_ON = 3 \<and> INV_SWITCH_INVERT_ONLY = 2 \<and>
   INV_SWITCH_CHARGE_ONLY = 1 \<and>
   map_of modes ''InvertOnly'' = Some INV_SWITCH_INVERT_ONLY \<and>
   (run es (construct e0) = Inr s' \<longrightarrow> Inverter_Switch_Mode_Target s' \<noteq> Some INV_SWITCH_INVERT_ONLY)"
proof -
  have a: "(Reverse_Power_Alarm s \<longrightarrow> Inverter_Switch_Mode_Target s = Some INV_SWITCH_OFF) \<and>
   (\<not> Reverse_Power_Alarm s \<longrightarrow>
      (Mode s = ''Off'' \<longrightarrow> Inverter_Switch_Mode_Target s = Some INV_SWITCH_OFF) \<and>
      (Mode s = ''On'' \<longrightarrow> Inverter_Switch_Mode_Target s = Some INV_SWITCH_ON) \<and>
      (Mode s = ''ChargeOnly'' \<longrightarrow> Inverter_Switch_Mode_Target s = Some INV_SWITCH_CHARGE_ONLY)) \<and>
   INV_SWITCH_OFF = 4 \<and> INV_SWITCH_ON = 3 \<and> INV_SWITCH_INVERT_ONLY = 2 \<and>
   INV_SWITCH_CHARGE_ONLY = 1 \<and>
   map_of modes ''InvertOnly'' = Some INV_SWITCH_INVERT_ONLY"
    by (auto simp add: target_defs)
  have r: "run es (construct e0) = Inr s' \<longrightarrow> Inverter_Switch_Mode_Target s' \<noteq> Some INV_SWITCH_INVERT_ONLY"
  proof
    assume "run es (construct e0) = Inr s'"
    from run_Mode_reachable [OF this] show "Inverter_Switch_Mode_Target s' \<noteq> Some INV_SWITCH_INVERT_ONLY"
      by (auto simp add: target_defs)
  qed
  from a r show ?thesis by blast
qed

theorem C8_switch_mode_target_witness:
  "Reverse_Power_Alarm s_alarm \<and> Mode s_alarm = ''On'' \<and>
   Inverter_Switch_Mode_Target s_alarm = Some 4 \<and>
   \<not> isl (run [env_on] (construct env_on)) \<and>
   Inverter_Switch_Mode_Target (projr (run [env_on] (construct env_on))) \<noteq> Some 2"
proof -
  obtain s1 where s1: "run [env_on] (construct env_on) = Inr s1"
    using run_healthy [of "[env_on]" "construct env_on"] healthy_envs(3) by auto
  have a: "Reverse_Power_Alarm s_alarm" "Mode s_alarm = ''On''"
    by (simp_all add: s_alarm_def s_pending_def)
  from C8_switch_mode_target [of s_alarm "[env_on]" env_on s1] a s1
  show ?thesis by simp
qed

section \<open>Relay writes (C9)\<close>

text \<open>
  Claim C9. \<open>set_relay\<close> calls \<open>set_dbus_value\<close> exactly when the target, with
  \<open>True\<close> and \<open>False\<close> coerced to 1 and 0, differs from the state recorded for that
  relay; the request is for that relay and carries the coerced target, and the bus
  receives it if the relay's item is imported and the write does not raise. When they
  are equal the controller and the bus are left as they were.

  \<open>set_outputs\<close> does this for each of the relays 2 to 9: the requests it adds are, in
  order, one for every relay whose target differs from its recorded state and none for
  the others. When all eight agree it changes nothing but the toggle bit, which flips
  when a fault is detected. In a tick that returns, the requests are those of
  \<open>set_outputs\<close> on the relay states read in that tick, followed by at most one inverter
  command.
\<close>

theorem C9_relay_change_suppression:
  "(set_requests (set_relay e n v s) \<noteq> set_requests s \<longleftrightarrow> relay_states s n \<noteq> Some (coerce v)) \<and>
   (relay_states s n \<noteq> Some (coerce v) \<longrightarrow>
      set_requests (set_relay e n v s) = set_requests s @ [(relay n, Some (coerce v))]) \<and>
   (relay_states s n \<noteq> Some (coerce v) \<and> dbus_items s (relay n) = Some Item \<and>
      \<not> set_fails e (relay n) \<longrightarrow>
      bus_writes (set_relay e n v s) = bus_writes s @ [(relay n, Some (coerce v))]) \<and>
   (relay_states s n = Some (coerce v) \<longrightarrow> set_relay e n v s = s) \<and>
   coerce (TBool True) = 1 \<and> coerce (TBool False) = 0 \<and>
   set_requests (set_outputs e s) = set_requests s @
     (if relay_states s 2 \<noteq> Some (coerce (TBool (if Fault_Detected s then Toggle_State s else Off_LED s)))
      then [(relay 2, Some (coerce (TBool (if Fault_Detected s then Toggle_State s else Off_LED s))))]
      else []) @
     (if relay_states s 3 \<noteq> Some (coerce (TBool (On_LED s)))
      then [(relay 3, Some (coerce (TBool (On_LED s))))] else []) @
     (if relay_states s 4 \<noteq> Some (coerce (TBool (Charge_LED s)))
      then [(relay 4, Some (coerce (TBool (Charge_LED s))))] else []) @
     (if relay_states s 5 \<noteq> Some (coerce (TBool (BMS_Wake s)))
      then [(relay 5, Some (coerce (TBool (BMS_Wake s))))] else []) @
     (if relay_states s 6 \<noteq> Some (coerce (TBool (DSE_Remote_Start s)))
      then [(relay 6, Some (coerce (TBool (DSE_Remote_Start s))))] else []) @
     (if relay_states s 7 \<noteq> Some (coerce (TBool (DSE_Mode_Request s)))
      then [(relay 7, Some (coerce (TBool (DSE_Mode_Request s))))] else []) @
     (if relay_states s 8 \<noteq> Some (coerce (TBool (RCD_Reset_Switch s)))
      then [(relay 8, Some (coerce (TBool (RCD_Reset_Switch s))))] else []) @
     (if relay_states s 9 \<noteq> Some (coerce (TBool (Reverse_Power_Alarm s)))
      then [(relay 9, Some (coerce (TBool (Reverse_Power_Alarm s))))] else []) \<and>
   (relay_states s 2 = Some (coerce (TBool (if Fault_Detected s then Toggle_State s else Off_LED s))) \<and>
    relay_states s 3 = Some (coerce (TBool (On_LED s))) \<and>
    relay_states s 4 = Some (coerce (TBool (Charge_LED s))) \<and>
    relay_states s 5 = Some (coerce (TBool (BMS_Wake s))) \<and>
    relay_states s 6 = Some (coerce (TBool (DSE_Remote_Start s))) \<and>
    relay_states s 7 = Some (coerce (TBool (DSE_Mode_Request s))) \<and>
    relay_states s 8 = Some (coerce (TBool (RCD_Reset_Switch s))) \<and>
    relay_states s 9 = Some (coerce (TBool (Reverse_Power_Alarm s))) \<longrightarrow>
      set_outputs e s = (if Fault_Detected s then s\<lparr>Toggle_State := \<not> Toggle_State s\<rparr> else s)) \<and>
   (tick e t = Inr t' \<longrightarrow>
      (\<exists>s7. relay_states s7 = relay_states t' \<and> set_requests s7 = set_requests t \<and>
         (set_requests t' = set_requests (set_outputs e s7) \<or>
          set_requests t' = set_requests (set_outputs e s7) @
            [(inverter_switch_mode, Inverter_Switch_Mode_Target t')])))"
proof -
  have call: "(set_requests (set_relay e n v s) \<noteq> set_requests s \<longleftrightarrow> relay_states s n \<noteq> Some (coerce v)) \<and>
   (relay_states s n \<noteq> Some (coerce v) \<longrightarrow>
      set_requests (set_relay e n v s) = set_requests s @ [(relay n, Some (coerce v))]) \<and>
   (relay_states s n \<noteq> Some (coerce v) \<and> dbus_items s (relay n) = Some Item \<and>
      \<not> set_fails e (relay n) \<longrightarrow>
      bus_writes (set_relay e n v s) = bus_writes s @ [(relay n, Some (coerce v))]) \<and>
   (relay_states s n = Some (coerce v) \<longrightarrow> set_relay e n v s = s) \<and>
   coerce (TBool True) = 1 \<and> coerce (TBool False) = 0"
    by (auto simp add: set_relay_def set_dbus_value_requests set_dbus_value_writes)
  have same: "relay_states s 2 = Some (coerce (TBool (if Fault_Detected s then Toggle_State s else Off_LED s))) \<and>
    relay_states s 3 = Some (coerce (TBool (On_LED s))) \<and>
    relay_states s 4 = Some (coerce (TBool (Charge_LED s))) \<and>
    relay_states s 5 = Some (coerce (TBool (BMS_Wake s))) \<and>
    relay_states s 6 = Some (coerce (TBool (DSE_Remote_Start s))) \<and>
    relay_states s 7 = Some (coerce (TBool (DSE_Mode_Request s))) \<and>
    relay_states s 8 = Some (coerce (TBool (RCD_Reset_Switch s))) \<and>
    relay_states s 9 = Some (coerce (TBool (Reverse_Power_Alarm s))) \<longrightarrow>
      set_outputs e s = (if Fault_Detected s then s\<lparr>Toggle_State := \<not> Toggle_State s\<rparr> else s)"
    using set_outputs_unchanged [of s e] by blast
  have tk: "tick e t = Inr t' \<longrightarrow>
      (\<exists>s7. relay_states s7 = relay_states t' \<and> set_requests s7 = set_requests t \<and>
         (set_requests t' = set_requests (set_outputs e s7) \<or>
          set_requests t' = set_requests (set_outputs e s7) @
            [(inverter_switch_mode, Inverter_Switch_Mode_Target t')]))"
  proof
    assume "tick e t = Inr t'"
    from tick_tail [OF this] obtain s7 where
      t': "t' = set_inverter_switch_mode e (update_inverter_switch_mode e (set_outputs e s7))" and
      r: "set_requests s7 = set_requests t" and rs: "relay_states s7 = relay_states t'"
      by blast
    let ?s9 = "update_inverter_switch_mode e (set_outputs e s7)"
    have "set_requests t' = set_requests ?s9 \<or>
      set_requests t' = set_requests ?s9 @ [(inverter_switch_mode, Inverter_Switch_Mode_Target ?s9)]"
      unfolding t'
      by (simp add: set_inverter_switch_mode_def Battery_Contactors_Closed_def Let_def
          set_dbus_value_requests Inverter_Switch_Mode_Target_def)
    then have "set_requests t' = set_requests (set_outputs e s7) \<or>
          set_requests t' = set_requests (set_outputs e s7) @
            [(inverter_switch_mode, Inverter_Switch_Mode_Target t')]"
      by (simp add: update_inverter_switch_mode_frame3 t' set_inverter_switch_mode_frame3)
    with r rs show "\<exists>s7. relay_states s7 = relay_states t' \<and> set_requests s7 = set_requests t \<and>
         (set_requests t' = set_requests (set_outputs e s7) \<or>
          set_requests t' = set_requests (set_outputs e s7) @
            [(inverter_switch_mode, Inverter_Switch_Mode_Target t')])"
      by blast
  qed
  from call set_outputs_requests [of e s] same tk show ?thesis by blast
qed

theorem C9_relay_change_suppression_witness:
  "relay_states s_relays 3 \<noteq> Some (coerce (TBool True)) \<and>
   set_requests (set_relay env0 3 (TBool True) s_relays) = [(relay 3, Some 1)] \<and>
   bus_writes (set_relay env0 3 (TBool True) s_relays) = [(relay 3, Some 1)] \<and>
   relay_states s_relays 4 = Some (coerce (TBool True)) \<and>
   set_relay env0 4 (TBool True) s_relays = s_relays \<and>
   set_requests (set_outputs env0 s_relays) =
     [(relay 2, Some 0), (relay 3, Some 1), (relay 4, Some 0), (relay 8, Some 0), (relay 9, Some 0)]"
proof -
  have f: "\<not> Fault_Detected s_relays" "\<not> Off_LED s_relays" "On_LED s_relays" "\<not> Charge_LED s_relays"
    "BMS_Wake s_relays" "DSE_Remote_Start s_relays" "DSE_Mode_Request s_relays"
    "\<not> RCD_Reset_Switch s_relays" "\<not> Reverse_Power_Alarm s_relays"
    by (simp_all add: s_relays_def s_pending_def construct_fields construct_def
        check_and_create_connections_def init_def Fault_Detected_def Off_LED_def On_LED_def
        Charge_LED_def BMS_Wake_def DSE_Remote_Start_def DSE_Mode_Request_def RCD_Reset_Switch_def
        button_defs)
  have r: "set_requests s_relays = []" "bus_writes s_relays = []"
    "relay_states s_relays = (\<lambda>n. if 2 \<le> n \<and> n < 10 then Some (if n = 3 then 0 else 1) else None)"
    "dbus_items s_relays (relay 3) = Some Item" "\<not> set_fails env0 (relay 3)"
    by (simp_all add: s_relays_def s_pending_def construct_fields construct_items dbus_items_spec_def
        env0_def)
  from C9_relay_change_suppression [of env0 3 "TBool True" s_relays] C9_relay_change_suppression [of env0 4 "TBool True" s_relays]
  show ?thesis by (simp add: f r)
qed

end
